theory Spec2Isabelle
  imports Complex_Main
begin

section \<open>Data model\<close>

text \<open>
  The backend is an Express application over a Prisma client.  Every table the route
  handlers touch is a list of rows; a row is a record with the columns the handlers
  read or write.  Identifiers are Prisma string ids, points in time are milliseconds
  since the epoch (the value of a JavaScript \<^verbatim>\<open>Date\<close>), hour counts and student counts are
  integers, money is a non-negative fraction.  Columns that no handler below inspects
  (description, classroom, notes, avatar, e-mail, ...) are left out of the rows.

  Where two tables have a column of the same name, the field carries a prefix for its
  table (\<open>u_id\<close>, \<open>c_id\<close>, \<open>p_status\<close>, \<open>pay_status\<close>, ...).

  Requests are processed one at a time: a handler takes the database, the authenticated
  user (\<^verbatim>\<open>req.user\<close>, as loaded by the \<^verbatim>\<open>auth\<close> middleware) and the request,
  and returns the response together with the database it leaves behind; a handler that
  only reads returns the response alone.  The current time and the ids that the database
  generates for new rows are arguments of the handlers that use them.
\<close>

type_synonym ident = string
type_synonym datetime = int

datatype role = ADMIN | TEACHER | STUDENT
datatype course_status = SCHEDULED | IN_PROGRESS | COURSE_COMPLETED | COURSE_CANCELLED
datatype package_status = ACTIVE | EXPIRED | COMPLETED | CANCELLED
datatype attendance_status = PRESENT | ABSENT | LATE | LEAVE
datatype payment_method = CASH | WECHAT | ALIPAY | BANK_TRANSFER
datatype payment_status = PENDING | PAID | FAILED | REFUNDED

record user =
  u_id :: ident
  u_role :: role

record course =
  c_id :: ident
  title :: string
  teacherId :: ident
  startTime :: datetime
  endTime :: datetime
  maxStudents :: int
  currentStudents :: int
  c_status :: course_status

record student_course =
  sc_studentId :: ident
  sc_courseId :: ident

record course_package =
  p_id :: ident
  p_name :: string
  totalHours :: int
  usedHours :: int
  price :: rat
  validDays :: int
  p_status :: package_status
  p_studentId :: ident
  purchasedAt :: datetime
  expiresAt :: datetime

record attendance_record =
  ar_studentId :: ident
  ar_courseId :: ident
  ar_status :: attendance_status
  recordedAt :: datetime

record payment =
  pay_id :: ident
  amount :: rat
  pay_method :: payment_method
  pay_status :: payment_status
  packageId :: "ident option"
  pay_studentId :: ident
  paidAt :: datetime

record db =
  users :: "user list"
  courses :: "course list"
  studentCourses :: "student_course list"
  coursePackages :: "course_package list"
  attendanceRecords :: "attendance_record list"
  payments :: "payment list"

text \<open>
  The responses that are not a success.  Each constructor is one
  \<^verbatim>\<open>res.status(...).json({ message })\<close> of the handlers; the comment gives the HTTP status
  and the meaning of the message.
\<close>

datatype error =
    ValidationError       \<comment> \<open>400, the express-validator error array\<close>
  | Forbidden             \<comment> \<open>403, insufficient permission\<close>
  | CourseNotFound        \<comment> \<open>404, the course does not exist\<close>
  | PackageNotFound       \<comment> \<open>404, the package does not exist\<close>
  | EnrollmentNotFound    \<comment> \<open>404, no enrollment record found\<close>
  | EndNotAfterStart      \<comment> \<open>400, the end time must be later than the start time\<close>
  | StartInPast           \<comment> \<open>400, the start time must not be earlier than now\<close>
  | InvalidTeacher        \<comment> \<open>400, the teacher does not exist or is not a teacher\<close>
  | TimeConflict          \<comment> \<open>400, another course is already scheduled in this period\<close>
  | CourseNotDeletable    \<comment> \<open>400, a running or completed course cannot be deleted\<close>
  | CourseNotEnrollable   \<comment> \<open>400, the course is no longer open for enrollment\<close>
  | AlreadyEnrolled       \<comment> \<open>400, you are already enrolled in this course\<close>
  | CourseFull            \<comment> \<open>400, the course is full\<close>
  | CourseStarted         \<comment> \<open>400, the course has started, enrollment cannot be cancelled\<close>
  | PackageUnavailable    \<comment> \<open>400, the package is no longer usable\<close>
  | PackageExpired        \<comment> \<open>400, the package has expired\<close>
  | InsufficientHours     \<comment> \<open>400, not enough hours\<close>
  | InvalidStudent        \<comment> \<open>400, the student does not exist or is not a student\<close>
  | NotEnrolled           \<comment> \<open>400, the student is not enrolled in this course\<close>
  | RecordExists          \<comment> \<open>400, the student already has an attendance record here\<close>
  | SomeStudentsInvalid   \<comment> \<open>400, some students do not exist or are not students\<close>
  | SomeNotEnrolled       \<comment> \<open>400, some students are not enrolled in this course\<close>
  | SomeRecordsExist      \<comment> \<open>400, some students already have attendance records\<close>
  | InternalError         \<comment> \<open>500, the catch block: a thrown Prisma or JavaScript error\<close>

subsection \<open>Middleware and look-ups\<close>

text \<open>\<^verbatim>\<open>requireRole(roles)\<close>: \<^verbatim>\<open>roles.includes(req.user.role)\<close>.\<close>

definition requireRole :: "role list \<Rightarrow> user \<Rightarrow> bool" where
  "requireRole roles u = (u_role u \<in> set roles)"

text \<open>\<^verbatim>\<open>prisma.<model>.findUnique({ where: ... })\<close> on each table.\<close>

definition findUser :: "db \<Rightarrow> ident \<Rightarrow> user option" where
  "findUser d i = find (\<lambda>u. u_id u = i) (users d)"

definition findCourse :: "db \<Rightarrow> ident \<Rightarrow> course option" where
  "findCourse d i = find (\<lambda>c. c_id c = i) (courses d)"

definition findPackage :: "db \<Rightarrow> ident \<Rightarrow> course_package option" where
  "findPackage d i = find (\<lambda>p. p_id p = i) (coursePackages d)"

definition findEnrollment :: "db \<Rightarrow> ident \<Rightarrow> ident \<Rightarrow> student_course option" where
  "findEnrollment d sid cid =
     find (\<lambda>l. sc_studentId l = sid \<and> sc_courseId l = cid) (studentCourses d)"

definition findAttendance :: "db \<Rightarrow> ident \<Rightarrow> ident \<Rightarrow> attendance_record option" where
  "findAttendance d sid cid =
     find (\<lambda>r. ar_studentId r = sid \<and> ar_courseId r = cid) (attendanceRecords d)"

section \<open>Courses\<close>

subsection \<open>The teacher time-conflict query\<close>

text \<open>
  The \<^verbatim>\<open>OR\<close> of the \<^verbatim>\<open>conflictingCourse\<close> query, on one stored course: it starts at or
  before the requested start and ends after it, or it starts before the requested end and ends
  at or after it, or it lies within the requested window.
\<close>

definition overlaps :: "datetime \<Rightarrow> datetime \<Rightarrow> course \<Rightarrow> bool" where
  "overlaps start endt c =
     ((startTime c \<le> start \<and> endTime c > start) \<or>
      (startTime c < endt \<and> endTime c \<ge> endt) \<or>
      (startTime c \<ge> start \<and> endTime c \<le> endt))"

text \<open>\<^verbatim>\<open>prisma.course.findFirst\<close> of POST /courses.\<close>

definition conflictingCourse :: "db \<Rightarrow> ident \<Rightarrow> datetime \<Rightarrow> datetime \<Rightarrow> course option" where
  "conflictingCourse d tid start endt =
     find (\<lambda>c. teacherId c = tid \<and> c_status c \<in> set [SCHEDULED, IN_PROGRESS] \<and>
               overlaps start endt c) (courses d)"

text \<open>\<^verbatim>\<open>prisma.course.findFirst\<close> of PUT /courses/:id, which leaves the updated course out.\<close>

definition conflictingCourseExcept ::
  "db \<Rightarrow> ident \<Rightarrow> ident \<Rightarrow> datetime \<Rightarrow> datetime \<Rightarrow> course option" where
  "conflictingCourseExcept d cid tid start endt =
     find (\<lambda>c. c_id c \<noteq> cid \<and> teacherId c = tid \<and> c_status c \<in> set [SCHEDULED, IN_PROGRESS] \<and>
               overlaps start endt c) (courses d)"

subsection \<open>POST /courses\<close>

record create_course_body =
  cb_title :: string
  cb_startTime :: datetime
  cb_endTime :: datetime
  cb_maxStudents :: "int option"
  cb_teacherId :: "ident option"

text \<open>
  Modelled from the spec: the Prisma schema, which declares the column defaults, is not
  among the sources.  By the data model of the specification a course starts as scheduled,
  and its enrolled-count mirrors its enrollment links, of which a new course has none.
\<close>

definition defaultCourseStatus :: course_status where
  "defaultCourseStatus = SCHEDULED"

definition defaultCurrentStudents :: int where
  "defaultCurrentStudents = 0"

declare defaultCourseStatus_def [simp] defaultCurrentStudents_def [simp]

text \<open>
  \<^verbatim>\<open>prisma.course.create\<close>.  The id is the one the database generates, taken as an argument;
  an id that is already taken violates the primary key and the call throws.
\<close>

definition insertCourse :: "course \<Rightarrow> db \<Rightarrow> db option" where
  "insertCourse c d =
     (if findCourse d (c_id c) \<noteq> None then None else Some (d\<lparr>courses := courses d @ [c]\<rparr>))"

text \<open>\<^verbatim>\<open>teacherId || currentUser.id\<close>: an absent or empty teacher id falls back to the caller.\<close>

definition finalTeacherId :: "user \<Rightarrow> create_course_body \<Rightarrow> ident" where
  "finalTeacherId currentUser body =
     (case cb_teacherId body of
        None \<Rightarrow> u_id currentUser
      | Some t \<Rightarrow> if t = [] then u_id currentUser else t)"

definition createCourse ::
  "datetime \<Rightarrow> ident \<Rightarrow> db \<Rightarrow> user \<Rightarrow> create_course_body \<Rightarrow> (error + course) \<times> db" where
  "createCourse now newId d currentUser body =
     (if \<not> requireRole [ADMIN, TEACHER] currentUser then (Inl Forbidden, d)
      else if cb_title body = [] \<or> (case cb_maxStudents body of None \<Rightarrow> False | Some m \<Rightarrow> m < 1)
        then (Inl ValidationError, d)
      else (let start = cb_startTime body; endt = cb_endTime body in
        if start \<ge> endt then (Inl EndNotAfterStart, d)
        else if start \<le> now then (Inl StartInPast, d)
        else (case findUser d (finalTeacherId currentUser body) of
            None \<Rightarrow> (Inl InvalidTeacher, d)
          | Some teacher \<Rightarrow>
             (if u_role teacher \<noteq> TEACHER then (Inl InvalidTeacher, d)
              else (case conflictingCourse d (finalTeacherId currentUser body) start endt of
                Some c \<Rightarrow> (Inl TimeConflict, d)
              | None \<Rightarrow>
                 (let c = \<lparr>c_id = newId, title = cb_title body,
                           teacherId = finalTeacherId currentUser body,
                           startTime = start, endTime = endt,
                           maxStudents = (case cb_maxStudents body of None \<Rightarrow> 20 | Some m \<Rightarrow> m),
                           currentStudents = defaultCurrentStudents,
                           c_status = defaultCourseStatus\<rparr> in
                  (case insertCourse c d of
                    None \<Rightarrow> (Inl InternalError, d)
                  | Some d' \<Rightarrow> (Inr c, d'))))))))"

subsection \<open>PUT /courses/:id\<close>

text \<open>
  The handler hands \<^verbatim>\<open>req.body\<close> to \<^verbatim>\<open>prisma.course.update\<close> as it is: the validators
  check the fields they name and remove nothing.  Beside the validated fields the body
  record therefore has \<open>ub_currentStudents\<close>, a column of the course that has no validator.
\<close>

record update_course_body =
  ub_title :: "string option"
  ub_startTime :: "datetime option"
  ub_endTime :: "datetime option"
  ub_maxStudents :: "int option"
  ub_status :: "course_status option"
  ub_currentStudents :: "int option"

definition applyCourseUpdate :: "update_course_body \<Rightarrow> course \<Rightarrow> course" where
  "applyCourseUpdate body c =
     c\<lparr>title := (case ub_title body of None \<Rightarrow> title c | Some v \<Rightarrow> v),
       startTime := (case ub_startTime body of None \<Rightarrow> startTime c | Some v \<Rightarrow> v),
       endTime := (case ub_endTime body of None \<Rightarrow> endTime c | Some v \<Rightarrow> v),
       maxStudents := (case ub_maxStudents body of None \<Rightarrow> maxStudents c | Some v \<Rightarrow> v),
       c_status := (case ub_status body of None \<Rightarrow> c_status c | Some v \<Rightarrow> v),
       currentStudents := (case ub_currentStudents body of None \<Rightarrow> currentStudents c | Some v \<Rightarrow> v)\<rparr>"

definition storeCourseUpdate :: "ident \<Rightarrow> update_course_body \<Rightarrow> db \<Rightarrow> db" where
  "storeCourseUpdate cid body d =
     d\<lparr>courses := map (\<lambda>c. if c_id c = cid then applyCourseUpdate body c else c) (courses d)\<rparr>"

definition updateCourse ::
  "db \<Rightarrow> user \<Rightarrow> ident \<Rightarrow> update_course_body \<Rightarrow> (error + course) \<times> db" where
  "updateCourse d currentUser cid updateData =
     (if \<not> requireRole [ADMIN, TEACHER] currentUser then (Inl Forbidden, d)
      else if ub_title updateData = Some [] \<or>
              (case ub_maxStudents updateData of None \<Rightarrow> False | Some m \<Rightarrow> m < 1)
        then (Inl ValidationError, d)
      else (case findCourse d cid of
        None \<Rightarrow> (Inl CourseNotFound, d)
      | Some existingCourse \<Rightarrow>
         (if teacherId existingCourse \<noteq> u_id currentUser \<and> u_role currentUser \<noteq> ADMIN
            then (Inl Forbidden, d)
          else (let start = (case ub_startTime updateData of
                               None \<Rightarrow> startTime existingCourse | Some v \<Rightarrow> v);
                    endt = (case ub_endTime updateData of
                               None \<Rightarrow> endTime existingCourse | Some v \<Rightarrow> v);
                    timed = (ub_startTime updateData \<noteq> None \<or> ub_endTime updateData \<noteq> None) in
            if timed \<and> start \<ge> endt then (Inl EndNotAfterStart, d)
            else if timed \<and>
                    conflictingCourseExcept d cid (teacherId existingCourse) start endt \<noteq> None
              then (Inl TimeConflict, d)
            else (Inr (applyCourseUpdate updateData existingCourse),
                  storeCourseUpdate cid updateData d)))))"

subsection \<open>DELETE /courses/:id\<close>



subsection \<open>Transactions\<close>

text \<open>
  A write either yields the new database or throws (\<open>None\<close>), and the store can refuse any
  write for a reason of its own (a lost connection, a constraint of the schema, a value
  that does not fit its column), in which case the call throws as well.  For the requests whose writes run in a transaction, the
  argument \<open>fault\<close> is the position, counted from 0 among the writes of the request, of the
  write that the store refuses; \<open>None\<close> is the run in which it refuses none.  The reads
  of a handler write nothing, and they are taken to answer.
  \<^verbatim>\<open>prisma.$transaction\<close> runs its writes in order and commits them together: when one
  throws, the result is \<open>None\<close>, whatever the earlier writes did is rolled back, and the
  caller is left with the database it started from.
\<close>

fun transaction :: "nat option \<Rightarrow> (db \<Rightarrow> db option) list \<Rightarrow> db \<Rightarrow> db option" where
  "transaction fault [] d = Some d"
| "transaction fault (w # ws) d =
     (if fault = Some 0 then None
      else (case w d of
              None \<Rightarrow> None
            | Some d' \<Rightarrow> transaction (map_option (\<lambda>n. n - 1) fault) ws d'))"

text \<open>
  \<^verbatim>\<open>prisma.studentCourse.create\<close>: the pair (studentId, courseId) is a unique key (the
  handlers look links up by \<^verbatim>\<open>studentId_courseId\<close>), so a second link for a pair throws.
\<close>

definition createStudentCourse :: "ident \<Rightarrow> ident \<Rightarrow> db \<Rightarrow> db option" where
  "createStudentCourse sid cid d =
     (if findEnrollment d sid cid \<noteq> None then None
      else Some (d\<lparr>studentCourses := studentCourses d @ [\<lparr>sc_studentId = sid, sc_courseId = cid\<rparr>]\<rparr>))"


text \<open>
  \<^verbatim>\<open>prisma.course.update\<close> with \<^verbatim>\<open>currentStudents: { increment: k }\<close> (a decrement is a
  negative \<open>k\<close>): throws when there is no such course.
\<close>

definition incrementCurrentStudents :: "ident \<Rightarrow> int \<Rightarrow> db \<Rightarrow> db option" where
  "incrementCurrentStudents cid k d =
     (if findCourse d cid = None then None
      else Some (d\<lparr>courses :=
             map (\<lambda>c. if c_id c = cid then c\<lparr>currentStudents := currentStudents c + k\<rparr> else c)
               (courses d)\<rparr>))"

subsection \<open>POST /courses/:id/enroll\<close>

definition enrollWith :: "nat option \<Rightarrow> db \<Rightarrow> user \<Rightarrow> ident \<Rightarrow> (error + unit) \<times> db" where
  "enrollWith fault d currentUser cid =
     (if \<not> requireRole [STUDENT] currentUser then (Inl Forbidden, d)
      else (case findCourse d cid of
        None \<Rightarrow> (Inl CourseNotFound, d)
      | Some c \<Rightarrow>
         (if c_status c \<noteq> SCHEDULED then (Inl CourseNotEnrollable, d)
          else if findEnrollment d (u_id currentUser) cid \<noteq> None then (Inl AlreadyEnrolled, d)
          else if currentStudents c \<ge> maxStudents c then (Inl CourseFull, d)
          else (case transaction fault [createStudentCourse (u_id currentUser) cid,
                                        incrementCurrentStudents cid 1] d of
            None \<Rightarrow> (Inl InternalError, d)
          | Some d' \<Rightarrow> (Inr (), d')))))"

text \<open>The request in a run in which the store refuses no write.\<close>

definition enroll :: "db \<Rightarrow> user \<Rightarrow> ident \<Rightarrow> (error + unit) \<times> db" where
  "enroll d currentUser cid = enrollWith None d currentUser cid"

subsection \<open>DELETE /courses/:id/enroll\<close>



section \<open>Lesson packages\<close>

subsection \<open>POST /packages/:id/consume\<close>

record consume_body =
  hours :: int
  courseId :: ident

record consume_response =
  remainingHours :: int
  status :: package_status

text \<open>
  \<^verbatim>\<open>prisma.coursePackage.update({ where: { id }, data: { usedHours, status } })\<close>.
\<close>

definition updatePackageHours :: "ident \<Rightarrow> int \<Rightarrow> package_status \<Rightarrow> db \<Rightarrow> db" where
  "updatePackageHours pid newUsedHours newStatus d =
     d\<lparr>coursePackages :=
         map (\<lambda>q. if p_id q = pid then q\<lparr>usedHours := newUsedHours, p_status := newStatus\<rparr> else q)
           (coursePackages d)\<rparr>"

text \<open>
  The handler, check by check in the order of the source: the role gate and the
  validators run as middleware before the body of the handler.
\<close>

definition consume ::
  "datetime \<Rightarrow> db \<Rightarrow> user \<Rightarrow> ident \<Rightarrow> consume_body \<Rightarrow> (error + consume_response) \<times> db" where
  "consume now d currentUser pid body =
     (if \<not> requireRole [ADMIN, TEACHER] currentUser then (Inl Forbidden, d)
      else if hours body < 1 then (Inl ValidationError, d)
      else (case findPackage d pid of
        None \<Rightarrow> (Inl PackageNotFound, d)
      | Some coursePackage \<Rightarrow>
         (if p_status coursePackage \<noteq> ACTIVE then (Inl PackageUnavailable, d)
          else if expiresAt coursePackage < now then (Inl PackageExpired, d)
          else if totalHours coursePackage - usedHours coursePackage < hours body
            then (Inl InsufficientHours, d)
          else (case findCourse d (courseId body) of
            None \<Rightarrow> (Inl CourseNotFound, d)
          | Some c \<Rightarrow>
             (let newUsedHours = usedHours coursePackage + hours body;
                  newStatus = (if newUsedHours \<ge> totalHours coursePackage then COMPLETED else ACTIVE)
              in (Inr \<lparr>remainingHours = totalHours coursePackage - newUsedHours,
                       status = newStatus\<rparr>,
                  updatePackageHours pid newUsedHours newStatus d))))))"

subsection \<open>PUT /packages/:id\<close>

text \<open>
  As for courses, \<^verbatim>\<open>req.body\<close> goes to \<^verbatim>\<open>prisma.coursePackage.update\<close> as it is.  The
  validators cover the name and the status; \<open>pb_usedHours\<close> and \<open>pb_totalHours\<close> are columns
  of the package that a body may carry without any check.
\<close>

record update_package_body =
  pb_name :: "string option"
  pb_status :: "package_status option"
  pb_usedHours :: "int option"
  pb_totalHours :: "int option"

definition applyPackageUpdate :: "update_package_body \<Rightarrow> course_package \<Rightarrow> course_package" where
  "applyPackageUpdate body p =
     p\<lparr>p_name := (case pb_name body of None \<Rightarrow> p_name p | Some v \<Rightarrow> v),
       p_status := (case pb_status body of None \<Rightarrow> p_status p | Some v \<Rightarrow> v),
       usedHours := (case pb_usedHours body of None \<Rightarrow> usedHours p | Some v \<Rightarrow> v),
       totalHours := (case pb_totalHours body of None \<Rightarrow> totalHours p | Some v \<Rightarrow> v)\<rparr>"

definition storePackageUpdate :: "ident \<Rightarrow> update_package_body \<Rightarrow> db \<Rightarrow> db" where
  "storePackageUpdate pid body d =
     d\<lparr>coursePackages :=
         map (\<lambda>p. if p_id p = pid then applyPackageUpdate body p else p) (coursePackages d)\<rparr>"

definition updatePackage ::
  "db \<Rightarrow> user \<Rightarrow> ident \<Rightarrow> update_package_body \<Rightarrow> (error + course_package) \<times> db" where
  "updatePackage d currentUser pid updateData =
     (if \<not> requireRole [ADMIN] currentUser then (Inl Forbidden, d)
      else if pb_name updateData = Some [] then (Inl ValidationError, d)
      else (case findPackage d pid of
        None \<Rightarrow> (Inl PackageNotFound, d)
      | Some existingPackage \<Rightarrow>
          (Inr (applyPackageUpdate updateData existingPackage), storePackageUpdate pid updateData d)))"

subsection \<open>POST /packages/purchase\<close>

record purchase_body =
  pu_name :: string
  pu_totalHours :: int
  pu_price :: rat
  pu_validDays :: int
  pu_paymentMethod :: payment_method

text \<open>
  The numbers of a body are JSON numbers; an integer of the model stands for the number of
  that value.  \<^verbatim>\<open>isInt({ min: 1 })\<close> of express-validator reads the number as a string:
  from 1e21 on, that string is in exponent notation, which is not the notation of an
  integer.
\<close>

definition isIntMin1 :: "int \<Rightarrow> bool" where
  "isIntMin1 n = (1 \<le> n \<and> n < 1000000000000000000000)"

text \<open>
  The time value of a JavaScript \<^verbatim>\<open>Date\<close> lies within 8640000000000000 milliseconds of the
  epoch; a time outside of this range is clipped to an Invalid Date (\<open>None\<close>).
\<close>

definition timeClip :: "int \<Rightarrow> datetime option" where
  "timeClip t = (if \<bar>t\<bar> \<le> 8640000000000000 then Some t else None)"

text \<open>
  \<^verbatim>\<open>expiresAt.setDate(expiresAt.getDate() + validDays)\<close> on \<^verbatim>\<open>new Date()\<close>: the same time
  of day, \<open>validDays\<close> calendar days later.  The server clock has no daylight-saving shifts
  (the container runs in UTC), so a day is 86400000 milliseconds.  The new time value is
  clipped: for a day count that leads out of the range of dates the result is an Invalid
  Date, and so it is when the date was invalid before.
\<close>

definition addDays :: "datetime \<Rightarrow> int \<Rightarrow> datetime option" where
  "addDays t n = (case timeClip t of None \<Rightarrow> None | Some t' \<Rightarrow> timeClip (t' + n * 86400000))"

text \<open>
  Modelled from the spec: the Prisma schema, which declares the column defaults, is not
  among the sources.  By the data model and the scenarios of the specification a new
  package is active and has no used hours; the time stamps of new rows (\<open>purchasedAt\<close>,
  \<open>paidAt\<close>, \<open>recordedAt\<close>) are the time of their creation.
\<close>

definition defaultPackageStatus :: package_status where
  "defaultPackageStatus = ACTIVE"

definition defaultUsedHours :: int where
  "defaultUsedHours = 0"

declare defaultPackageStatus_def [simp] defaultUsedHours_def [simp]

text \<open>
  \<^verbatim>\<open>tx.coursePackage.create\<close> and \<^verbatim>\<open>tx.payment.create\<close>.  The ids are the ones the database
  generates, taken as arguments; a create whose id is already taken throws.
\<close>

definition insertPackage :: "course_package \<Rightarrow> db \<Rightarrow> db option" where
  "insertPackage p d =
     (if findPackage d (p_id p) \<noteq> None then None
      else Some (d\<lparr>coursePackages := coursePackages d @ [p]\<rparr>))"

definition insertPayment :: "payment \<Rightarrow> db \<Rightarrow> db option" where
  "insertPayment p d =
     (if find (\<lambda>q. pay_id q = pay_id p) (payments d) \<noteq> None then None
      else Some (d\<lparr>payments := payments d @ [p]\<rparr>))"

text \<open>The \<^verbatim>\<open>data\<close> of the two creates.\<close>

definition newPackage ::
  "datetime \<Rightarrow> datetime \<Rightarrow> ident \<Rightarrow> user \<Rightarrow> purchase_body \<Rightarrow> course_package" where
  "newPackage now expires newPackageId currentUser body =
     \<lparr>p_id = newPackageId, p_name = pu_name body, totalHours = pu_totalHours body,
      usedHours = defaultUsedHours, price = pu_price body, validDays = pu_validDays body,
      p_status = defaultPackageStatus, p_studentId = u_id currentUser, purchasedAt = now,
      expiresAt = expires\<rparr>"

definition newPayment ::
  "datetime \<Rightarrow> ident \<Rightarrow> course_package \<Rightarrow> user \<Rightarrow> purchase_body \<Rightarrow> payment" where
  "newPayment now newPaymentId coursePackage currentUser body =
     \<lparr>pay_id = newPaymentId, amount = pu_price body, pay_method = pu_paymentMethod body,
      pay_status = PAID, packageId = Some (p_id coursePackage),
      pay_studentId = u_id currentUser, paidAt = now\<rparr>"

text \<open>
  The handler computes \<^verbatim>\<open>expiresAt\<close> first.  When it is an Invalid Date, the first create of
  the transaction throws on it, nothing is written and the catch block answers 500.
\<close>

definition purchaseWith ::
  "nat option \<Rightarrow> datetime \<Rightarrow> ident \<Rightarrow> ident \<Rightarrow> db \<Rightarrow> user \<Rightarrow> purchase_body \<Rightarrow>
   (error + course_package \<times> payment) \<times> db" where
  "purchaseWith fault now newPackageId newPaymentId d currentUser body =
     (if \<not> requireRole [STUDENT] currentUser then (Inl Forbidden, d)
      else if pu_name body = [] \<or> \<not> isIntMin1 (pu_totalHours body) \<or> pu_price body < 0 \<or>
              \<not> isIntMin1 (pu_validDays body)
        then (Inl ValidationError, d)
      else (case addDays now (pu_validDays body) of
        None \<Rightarrow> (Inl InternalError, d)
      | Some expires \<Rightarrow>
         (let coursePackage = newPackage now expires newPackageId currentUser body;
              payment = newPayment now newPaymentId coursePackage currentUser body
          in (case transaction fault [insertPackage coursePackage, insertPayment payment] d of
                None \<Rightarrow> (Inl InternalError, d)
              | Some d' \<Rightarrow> (Inr (coursePackage, payment), d')))))"

text \<open>The request in a run in which the store refuses no write.\<close>

definition purchase ::
  "datetime \<Rightarrow> ident \<Rightarrow> ident \<Rightarrow> db \<Rightarrow> user \<Rightarrow> purchase_body \<Rightarrow>
   (error + course_package \<times> payment) \<times> db" where
  "purchase now newPackageId newPaymentId d currentUser body =
     purchaseWith None now newPackageId newPaymentId d currentUser body"

section \<open>Attendance\<close>

subsection \<open>POST /attendance\<close>

record attendance_body =
  ab_studentId :: ident
  ab_courseId :: ident
  ab_status :: attendance_status

text \<open>
  \<^verbatim>\<open>prisma.attendanceRecord.create\<close>: the pair (studentId, courseId) is a unique key of the
  attendance records as well, so a second record for a pair throws.  The time stamp of a
  record defaults to the current time.
\<close>

definition insertAttendance :: "attendance_record \<Rightarrow> db \<Rightarrow> db option" where
  "insertAttendance r d =
     (if findAttendance d (ar_studentId r) (ar_courseId r) \<noteq> None then None
      else Some (d\<lparr>attendanceRecords := attendanceRecords d @ [r]\<rparr>))"

definition createAttendance ::
  "datetime \<Rightarrow> db \<Rightarrow> user \<Rightarrow> attendance_body \<Rightarrow> (error + attendance_record) \<times> db" where
  "createAttendance now d currentUser body =
     (if \<not> requireRole [ADMIN, TEACHER] currentUser then (Inl Forbidden, d)
      else (case findUser d (ab_studentId body) of
        None \<Rightarrow> (Inl InvalidStudent, d)
      | Some student \<Rightarrow>
         (if u_role student \<noteq> STUDENT then (Inl InvalidStudent, d)
          else (case findCourse d (ab_courseId body) of
            None \<Rightarrow> (Inl CourseNotFound, d)
          | Some c \<Rightarrow>
             (if teacherId c \<noteq> u_id currentUser \<and> u_role currentUser \<noteq> ADMIN
                then (Inl Forbidden, d)
              else if findEnrollment d (ab_studentId body) (ab_courseId body) = None
                then (Inl NotEnrolled, d)
              else if findAttendance d (ab_studentId body) (ab_courseId body) \<noteq> None
                then (Inl RecordExists, d)
              else (let r = \<lparr>ar_studentId = ab_studentId body, ar_courseId = ab_courseId body,
                              ar_status = ab_status body, recordedAt = now\<rparr> in
                (case insertAttendance r d of
                  None \<Rightarrow> (Inl InternalError, d)
                | Some d' \<Rightarrow> (Inr r, d'))))))))"

subsection \<open>POST /attendance/batch\<close>

record batch_item =
  bi_studentId :: ident
  bi_status :: attendance_status

record batch_body =
  bb_courseId :: ident
  bb_records :: "batch_item list"

text \<open>
  \<^verbatim>\<open>prisma.attendanceRecord.createMany\<close>: one insert statement for all rows, which throws
  as a whole when a row repeats the key of a stored row or of another row of the data.
\<close>

definition insertAttendanceMany :: "attendance_record list \<Rightarrow> db \<Rightarrow> db option" where
  "insertAttendanceMany rs d =
     (if (\<exists>r\<in>set rs. findAttendance d (ar_studentId r) (ar_courseId r) \<noteq> None) \<or>
         \<not> distinct (map (\<lambda>r. (ar_studentId r, ar_courseId r)) rs)
      then None
      else Some (d\<lparr>attendanceRecords := attendanceRecords d @ rs\<rparr>))"

text \<open>The \<^verbatim>\<open>data\<close> of \<^verbatim>\<open>createMany\<close>: \<^verbatim>\<open>records.map(record => ({ ... }))\<close>.\<close>

definition batchData :: "datetime \<Rightarrow> ident \<Rightarrow> batch_item list \<Rightarrow> attendance_record list" where
  "batchData now cid records =
     map (\<lambda>r. \<lparr>ar_studentId = bi_studentId r, ar_courseId = cid, ar_status = bi_status r,
                 recordedAt = now\<rparr>) records"

text \<open>
  The three \<^verbatim>\<open>findMany\<close> queries of the handler; each is compared by its length with the
  list of the requested student ids.
\<close>

definition batchStudents :: "db \<Rightarrow> ident list \<Rightarrow> user list" where
  "batchStudents d studentIds =
     filter (\<lambda>u. u_id u \<in> set studentIds \<and> u_role u = STUDENT) (users d)"

definition batchEnrollments :: "db \<Rightarrow> ident \<Rightarrow> ident list \<Rightarrow> student_course list" where
  "batchEnrollments d cid studentIds =
     filter (\<lambda>l. sc_studentId l \<in> set studentIds \<and> sc_courseId l = cid) (studentCourses d)"

definition batchExistingRecords :: "db \<Rightarrow> ident \<Rightarrow> ident list \<Rightarrow> attendance_record list" where
  "batchExistingRecords d cid studentIds =
     filter (\<lambda>r. ar_courseId r = cid \<and> ar_studentId r \<in> set studentIds) (attendanceRecords d)"

definition createAttendanceBatch ::
  "datetime \<Rightarrow> db \<Rightarrow> user \<Rightarrow> batch_body \<Rightarrow> (error + nat) \<times> db" where
  "createAttendanceBatch now d currentUser body =
     (if \<not> requireRole [ADMIN, TEACHER] currentUser then (Inl Forbidden, d)
      else (case findCourse d (bb_courseId body) of
        None \<Rightarrow> (Inl CourseNotFound, d)
      | Some c \<Rightarrow>
         (if teacherId c \<noteq> u_id currentUser \<and> u_role currentUser \<noteq> ADMIN then (Inl Forbidden, d)
          else (let studentIds = map bi_studentId (bb_records body) in
            if length (batchStudents d studentIds) \<noteq> length studentIds
              then (Inl SomeStudentsInvalid, d)
            else if length (batchEnrollments d (bb_courseId body) studentIds) \<noteq> length studentIds
              then (Inl SomeNotEnrolled, d)
            else if length (batchExistingRecords d (bb_courseId body) studentIds) > 0
              then (Inl SomeRecordsExist, d)
            else (case insertAttendanceMany (batchData now (bb_courseId body) (bb_records body)) d of
              None \<Rightarrow> (Inl InternalError, d)
            | Some d' \<Rightarrow> (Inr (length (batchData now (bb_courseId body) (bb_records body))), d'))))))"

section \<open>List endpoints\<close>

text \<open>
  The three list handlers build a \<^verbatim>\<open>where\<close> object from the query string, fix its
  \<^verbatim>\<open>studentId\<close> for a student, and answer with one page of
  \<^verbatim>\<open>findMany({ where, skip, take, orderBy })\<close> and the \<^verbatim>\<open>count({ where })\<close>.  They read the
  database and do not change it.  A missing query parameter is \<open>None\<close>; the validators admit
  a page from 1 and a limit from 1 to 100.
\<close>

record 'a listing =
  items :: "'a list"
  pg_page :: int
  pg_limit :: int
  pg_total :: nat
  pg_pages :: int

text \<open>\<^verbatim>\<open>const { page = 1, limit = 10 } = req.query\<close> and their validators.\<close>

definition pageOf :: "int option \<Rightarrow> int" where
  "pageOf page = (case page of None \<Rightarrow> 1 | Some n \<Rightarrow> n)"

definition limitOf :: "int option \<Rightarrow> int" where
  "limitOf limit = (case limit of None \<Rightarrow> 10 | Some n \<Rightarrow> n)"

definition validPaging :: "int option \<Rightarrow> int option \<Rightarrow> bool" where
  "validPaging page limit =
     ((case page of None \<Rightarrow> True | Some n \<Rightarrow> 1 \<le> n) \<and>
      (case limit of None \<Rightarrow> True | Some n \<Rightarrow> 1 \<le> n \<and> n \<le> 100))"

text \<open>
  \<^verbatim>\<open>skip: (page - 1) * limit, take: limit\<close> on the ordered matches, and the pagination
  block of the response with \<^verbatim>\<open>pages: Math.ceil(total / limit)\<close>.  The offset and the
  page number are those of the source as long as the product stays an exact double (below
  9007199254740992); for a page beyond that the source rounds the product and reads it
  back with \<^verbatim>\<open>parseInt\<close>, which gives another offset.  The items of the page are
  taken from the matches whatever the offset is.
\<close>

definition paginate :: "int option \<Rightarrow> int option \<Rightarrow> 'a list \<Rightarrow> 'a listing" where
  "paginate page limit matches =
     \<lparr>items = take (nat (limitOf limit)) (drop (nat ((pageOf page - 1) * limitOf limit)) matches),
      pg_page = pageOf page, pg_limit = limitOf limit, pg_total = length matches,
      pg_pages = - ((- int (length matches)) div limitOf limit)\<rparr>"

text \<open>
  \<^verbatim>\<open>if (x) where.f = x\<close> for a string parameter: an empty string is falsy and sets no filter.
\<close>

definition truthy :: "string option \<Rightarrow> string option" where
  "truthy x = (case x of None \<Rightarrow> None | Some s \<Rightarrow> if s = [] then None else Some s)"

text \<open>A filter that is not set admits every row.\<close>

definition admits :: "'b option \<Rightarrow> 'b \<Rightarrow> bool" where
  "admits f v = (case f of None \<Rightarrow> True | Some w \<Rightarrow> v = w)"

definition admits_gte :: "datetime option \<Rightarrow> datetime \<Rightarrow> bool" where
  "admits_gte f v = (case f of None \<Rightarrow> True | Some w \<Rightarrow> v \<ge> w)"

definition admits_lte :: "datetime option \<Rightarrow> datetime \<Rightarrow> bool" where
  "admits_lte f v = (case f of None \<Rightarrow> True | Some w \<Rightarrow> v \<le> w)"

subsection \<open>GET /packages\<close>

record package_query =
  pq_page :: "int option"
  pq_limit :: "int option"
  pq_status :: "package_status option"
  pq_studentId :: "ident option"

record package_where =
  pw_status :: "package_status option"
  pw_studentId :: "ident option"

definition packageWhere :: "user \<Rightarrow> package_query \<Rightarrow> package_where" where
  "packageWhere currentUser q =
     (let w = \<lparr>pw_status = pq_status q, pw_studentId = None\<rparr> in
      if u_role currentUser = STUDENT then w\<lparr>pw_studentId := Some (u_id currentUser)\<rparr>
      else if truthy (pq_studentId q) \<noteq> None then w\<lparr>pw_studentId := truthy (pq_studentId q)\<rparr>
      else w)"

definition matchesPackage :: "package_where \<Rightarrow> course_package \<Rightarrow> bool" where
  "matchesPackage w p = (admits (pw_status w) (p_status p) \<and> admits (pw_studentId w) (p_studentId p))"

text \<open>
  \<^verbatim>\<open>orderBy: { purchasedAt: 'desc' }\<close>; rows with the same time stamp keep the order of
  the table, where the database is free to choose.
\<close>

definition listPackages :: "db \<Rightarrow> user \<Rightarrow> package_query \<Rightarrow> error + course_package listing" where
  "listPackages d currentUser q =
     (if \<not> validPaging (pq_page q) (pq_limit q) then Inl ValidationError
      else Inr (paginate (pq_page q) (pq_limit q)
             (sort_key (\<lambda>p. - purchasedAt p)
                (filter (matchesPackage (packageWhere currentUser q)) (coursePackages d)))))"

subsection \<open>GET /payments\<close>

record payment_query =
  yq_page :: "int option"
  yq_limit :: "int option"
  yq_status :: "payment_status option"
  yq_method :: "payment_method option"
  yq_studentId :: "ident option"
  yq_startDate :: "datetime option"
  yq_endDate :: "datetime option"

record payment_where =
  yw_status :: "payment_status option"
  yw_method :: "payment_method option"
  yw_studentId :: "ident option"
  yw_paidAt_gte :: "datetime option"
  yw_paidAt_lte :: "datetime option"

definition paymentWhere :: "user \<Rightarrow> payment_query \<Rightarrow> payment_where" where
  "paymentWhere currentUser q =
     (let w = \<lparr>yw_status = yq_status q, yw_method = yq_method q,
               yw_studentId = truthy (yq_studentId q),
               yw_paidAt_gte = yq_startDate q, yw_paidAt_lte = yq_endDate q\<rparr> in
      if u_role currentUser = STUDENT then w\<lparr>yw_studentId := Some (u_id currentUser)\<rparr> else w)"

definition matchesPayment :: "payment_where \<Rightarrow> payment \<Rightarrow> bool" where
  "matchesPayment w p =
     (admits (yw_status w) (pay_status p) \<and> admits (yw_method w) (pay_method p) \<and>
      admits (yw_studentId w) (pay_studentId p) \<and>
      admits_gte (yw_paidAt_gte w) (paidAt p) \<and> admits_lte (yw_paidAt_lte w) (paidAt p))"

definition listPayments :: "db \<Rightarrow> user \<Rightarrow> payment_query \<Rightarrow> error + payment listing" where
  "listPayments d currentUser q =
     (if \<not> validPaging (yq_page q) (yq_limit q) then Inl ValidationError
      else Inr (paginate (yq_page q) (yq_limit q)
             (sort_key (\<lambda>p. - paidAt p)
                (filter (matchesPayment (paymentWhere currentUser q)) (payments d)))))"

subsection \<open>GET /attendance\<close>

record attendance_query =
  aq_page :: "int option"
  aq_limit :: "int option"
  aq_courseId :: "ident option"
  aq_studentId :: "ident option"
  aq_status :: "attendance_status option"
  aq_startDate :: "datetime option"
  aq_endDate :: "datetime option"

record attendance_where =
  aw_courseId :: "ident option"
  aw_studentId :: "ident option"
  aw_status :: "attendance_status option"
  aw_recordedAt_gte :: "datetime option"
  aw_recordedAt_lte :: "datetime option"

definition attendanceWhere :: "user \<Rightarrow> attendance_query \<Rightarrow> attendance_where" where
  "attendanceWhere currentUser q =
     (let w = \<lparr>aw_courseId = truthy (aq_courseId q), aw_studentId = truthy (aq_studentId q),
               aw_status = aq_status q,
               aw_recordedAt_gte = aq_startDate q, aw_recordedAt_lte = aq_endDate q\<rparr> in
      if u_role currentUser = STUDENT then w\<lparr>aw_studentId := Some (u_id currentUser)\<rparr> else w)"

definition matchesAttendance :: "attendance_where \<Rightarrow> attendance_record \<Rightarrow> bool" where
  "matchesAttendance w r =
     (admits (aw_courseId w) (ar_courseId r) \<and> admits (aw_studentId w) (ar_studentId r) \<and>
      admits (aw_status w) (ar_status r) \<and>
      admits_gte (aw_recordedAt_gte w) (recordedAt r) \<and>
      admits_lte (aw_recordedAt_lte w) (recordedAt r))"

definition listAttendance ::
  "db \<Rightarrow> user \<Rightarrow> attendance_query \<Rightarrow> error + attendance_record listing" where
  "listAttendance d currentUser q =
     (if \<not> validPaging (aq_page q) (aq_limit q) then Inl ValidationError
      else Inr (paginate (aq_page q) (aq_limit q)
             (sort_key (\<lambda>r. - recordedAt r)
                (filter (matchesAttendance (attendanceWhere currentUser q)) (attendanceRecords d)))))"

section \<open>Statistics\<close>




subsection \<open>GET /attendance/course/:courseId/statistics\<close>






subsection \<open>The rates of GET /statistics\<close>











section \<open>Invariants and request sequences\<close>

text \<open>
  The wording of the specification: two half-open time windows overlap when their
  intersection is not empty.
\<close>

definition intervals_intersect :: "datetime \<Rightarrow> datetime \<Rightarrow> datetime \<Rightarrow> datetime \<Rightarrow> bool" where
  "intervals_intersect s e start endt = ({s..<e} \<inter> {start..<endt} \<noteq> {})"

text \<open>
  The keys of the tables: the pair (student, course) of an enrollment link and the id of a
  course are unique.
\<close>

definition links_unique :: "db \<Rightarrow> bool" where
  "links_unique d = distinct (map (\<lambda>l. (sc_studentId l, sc_courseId l)) (studentCourses d))"

definition course_ids_unique :: "db \<Rightarrow> bool" where
  "course_ids_unique d = distinct (map c_id (courses d))"







text \<open>Every stored course starts before it ends.\<close>

definition times_ok :: "db \<Rightarrow> bool" where
  "times_ok d = (\<forall>c\<in>set (courses d). startTime c < endTime c)"

text \<open>
  The balance of a package: the used hours are at most the total, and a package whose used
  hours have reached the total is COMPLETED.  Package ids are the primary key.
\<close>

definition package_inv :: "db \<Rightarrow> bool" where
  "package_inv d =
     (distinct (map p_id (coursePackages d)) \<and>
      (\<forall>p\<in>set (coursePackages d).
          usedHours p \<le> totalHours p \<and> (totalHours p \<le> usedHours p \<longrightarrow> p_status p = COMPLETED)))"

text \<open>The requests that touch a package, and the database after a sequence of them.\<close>

datatype package_request =
    Consume datetime user ident consume_body
  | UpdatePackage user ident update_package_body
  | Purchase datetime ident ident user purchase_body

fun package_step :: "db \<Rightarrow> package_request \<Rightarrow> db" where
  "package_step d (Consume now u pid b) = snd (consume now d u pid b)"
| "package_step d (UpdatePackage u pid b) = snd (updatePackage d u pid b)"
| "package_step d (Purchase now pid payid u b) = snd (purchase now pid payid d u b)"

fun package_run :: "db \<Rightarrow> package_request list \<Rightarrow> db" where
  "package_run d [] = d"
| "package_run d (r # rs) = package_run (package_step d r) rs"

text \<open>An update request that sets none of status, used hours and total hours.\<close>

fun keeps_hours :: "package_request \<Rightarrow> bool" where
  "keeps_hours (UpdatePackage u pid b) =
     (pb_status b = None \<and> pb_usedHours b = None \<and> pb_totalHours b = None)"
| "keeps_hours r = True"

text \<open>The package \<open>pid\<close> is used up: COMPLETED, with the given used and total hours.\<close>

definition used_up :: "db \<Rightarrow> ident \<Rightarrow> int \<Rightarrow> int \<Rightarrow> bool" where
  "used_up d pid used tot =
     (case findPackage d pid of
        None \<Rightarrow> False
      | Some p \<Rightarrow> usedHours p = used \<and> totalHours p = tot \<and> p_status p = COMPLETED)"

text \<open>
  The wording of the specification for attendance: a student with the student role, and a
  member of a batch that passes all three validations for the course.
\<close>

definition is_student :: "db \<Rightarrow> ident \<Rightarrow> bool" where
  "is_student d sid = (\<exists>u\<in>set (users d). u_id u = sid \<and> u_role u = STUDENT)"

definition batch_member_ok :: "db \<Rightarrow> ident \<Rightarrow> ident \<Rightarrow> bool" where
  "batch_member_ok d cid sid =
     (is_student d sid \<and> findEnrollment d sid cid \<noteq> None \<and> findAttendance d sid cid = None)"

text \<open>User ids are the primary key of the users.\<close>

definition user_ids_unique :: "db \<Rightarrow> bool" where
  "user_ids_unique d = distinct (map u_id (users d))"




section \<open>Fixtures of the scenarios\<close>

definition admin1 :: user where
  "admin1 = \<lparr>u_id = ''admin1'', u_role = ADMIN\<rparr>"

definition teacher1 :: user where
  "teacher1 = \<lparr>u_id = ''teacher1'', u_role = TEACHER\<rparr>"

definition studentA :: user where
  "studentA = \<lparr>u_id = ''studentA'', u_role = STUDENT\<rparr>"

definition studentB :: user where
  "studentB = \<lparr>u_id = ''studentB'', u_role = STUDENT\<rparr>"

text \<open>A course of \<open>teacher1\<close> from 10:00 to 12:00 (in milliseconds) with the given capacity and counter.\<close>

definition course1 :: "int \<Rightarrow> int \<Rightarrow> course" where
  "course1 cap cur =
     \<lparr>c_id = ''course1'', title = ''kaishu'', teacherId = ''teacher1'',
      startTime = 36000000, endTime = 43200000,
      maxStudents = cap, currentStudents = cur, c_status = SCHEDULED\<rparr>"

text \<open>A package of 20 hours of \<open>studentA\<close> with the given used hours and status.\<close>

definition pkg20 :: "int \<Rightarrow> package_status \<Rightarrow> course_package" where
  "pkg20 used st =
     \<lparr>p_id = ''pkg1'', p_name = ''basic'', totalHours = 20, usedHours = used, price = 2000,
      validDays = 90, p_status = st, p_studentId = ''studentA'',
      purchasedAt = 0, expiresAt = 7776000000\<rparr>"

definition package_db :: "course_package \<Rightarrow> db" where
  "package_db p =
     \<lparr>users = [admin1, teacher1, studentA], courses = [course1 20 0], studentCourses = [],
      coursePackages = [p], attendanceRecords = [], payments = []\<rparr>"

text \<open>A database with one course and the given enrollment links.\<close>

definition course_db :: "course \<Rightarrow> student_course list \<Rightarrow> db" where
  "course_db c links =
     \<lparr>users = [admin1, teacher1, studentA, studentB], courses = [c], studentCourses = links,
      coursePackages = [], attendanceRecords = [], payments = []\<rparr>"

definition linkA :: student_course where
  "linkA = \<lparr>sc_studentId = ''studentA'', sc_courseId = ''course1''\<rparr>"

definition linkB :: student_course where
  "linkB = \<lparr>sc_studentId = ''studentB'', sc_courseId = ''course1''\<rparr>"


definition reactivate :: update_package_body where
  "reactivate = \<lparr>pb_name = None, pb_status = Some ACTIVE, pb_usedHours = None, pb_totalHours = None\<rparr>"

definition rename :: update_package_body where
  "rename = \<lparr>pb_name = Some ''advanced'', pb_status = None, pb_usedHours = None, pb_totalHours = None\<rparr>"

definition buy10 :: purchase_body where
  "buy10 = \<lparr>pu_name = ''trial'', pu_totalHours = 10, pu_price = 1200, pu_validDays = 30,
            pu_paymentMethod = WECHAT\<rparr>"

definition pay1 :: payment where
  "pay1 = \<lparr>pay_id = ''pay1'', amount = 2000, pay_method = CASH, pay_status = PAID,
           packageId = Some ''pkg1'', pay_studentId = ''studentA'', paidAt = 0\<rparr>"

definition paid_db :: db where
  "paid_db = (package_db (pkg20 0 ACTIVE))\<lparr>payments := [pay1]\<rparr>"

definition recA :: attendance_record where
  "recA = \<lparr>ar_studentId = ''studentA'', ar_courseId = ''course1'', ar_status = PRESENT, recordedAt = 0\<rparr>"

definition attended_db :: "course \<Rightarrow> student_course list \<Rightarrow> db" where
  "attended_db c links = (course_db c links)\<lparr>attendanceRecords := [recA]\<rparr>"

definition presentA :: attendance_body where
  "presentA = \<lparr>ab_studentId = ''studentA'', ab_courseId = ''course1'', ab_status = PRESENT\<rparr>"

definition batch_of :: "ident list \<Rightarrow> batch_body" where
  "batch_of ids =
     \<lparr>bb_courseId = ''course1'',
      bb_records = map (\<lambda>i. \<lparr>bi_studentId = i, bi_status = PRESENT\<rparr>) ids\<rparr>"

text \<open>Five students, of whom all but the fifth are enrolled in the course.\<close>

definition five_db :: db where
  "five_db =
     \<lparr>users = [admin1, teacher1,
               \<lparr>u_id = ''s1'', u_role = STUDENT\<rparr>, \<lparr>u_id = ''s2'', u_role = STUDENT\<rparr>,
               \<lparr>u_id = ''s3'', u_role = STUDENT\<rparr>, \<lparr>u_id = ''s4'', u_role = STUDENT\<rparr>,
               \<lparr>u_id = ''s5'', u_role = STUDENT\<rparr>],
      courses = [course1 20 4],
      studentCourses =
        [\<lparr>sc_studentId = ''s1'', sc_courseId = ''course1''\<rparr>,
         \<lparr>sc_studentId = ''s2'', sc_courseId = ''course1''\<rparr>,
         \<lparr>sc_studentId = ''s3'', sc_courseId = ''course1''\<rparr>,
         \<lparr>sc_studentId = ''s4'', sc_courseId = ''course1''\<rparr>],
      coursePackages = [], attendanceRecords = [], payments = []\<rparr>"

definition pay2 :: payment where
  "pay2 = \<lparr>pay_id = ''pay2'', amount = 1500, pay_method = ALIPAY, pay_status = PAID,
           packageId = None, pay_studentId = ''studentB'', paidAt = 5\<rparr>"

definition recB :: attendance_record where
  "recB = \<lparr>ar_studentId = ''studentB'', ar_courseId = ''course1'', ar_status = LATE, recordedAt = 7\<rparr>"

definition pkgB :: course_package where
  "pkgB = \<lparr>p_id = ''pkg2'', p_name = ''trial'', totalHours = 10, usedHours = 0, price = 1200,
           validDays = 30, p_status = ACTIVE, p_studentId = ''studentB'',
           purchasedAt = 3, expiresAt = 2592000003\<rparr>"

text \<open>A database with a package, a payment and an attendance record of each of two students.\<close>

definition shared_db :: db where
  "shared_db =
     \<lparr>users = [admin1, teacher1, studentA, studentB], courses = [course1 20 2],
      studentCourses = [linkA, linkB], coursePackages = [pkg20 0 ACTIVE, pkgB],
      attendanceRecords = [recA, recB], payments = [pay1, pay2]\<rparr>"

definition ask_packages :: "ident option \<Rightarrow> package_query" where
  "ask_packages sid = \<lparr>pq_page = None, pq_limit = None, pq_status = None, pq_studentId = sid\<rparr>"

definition ask_payments :: "ident option \<Rightarrow> payment_query" where
  "ask_payments sid =
     \<lparr>yq_page = None, yq_limit = None, yq_status = None, yq_method = None, yq_studentId = sid,
      yq_startDate = None, yq_endDate = None\<rparr>"

definition ask_attendance :: "ident option \<Rightarrow> attendance_query" where
  "ask_attendance sid =
     \<lparr>aq_page = None, aq_limit = None, aq_courseId = None, aq_studentId = sid, aq_status = None,
      aq_startDate = None, aq_endDate = None\<rparr>"


lemmas fixture_defs =
  admin1_def teacher1_def studentA_def studentB_def course1_def course_db_def linkA_def linkB_def
  pkg20_def package_db_def


lemmas package_handler_defs =
  consume_def updatePackage_def requireRole_def findPackage_def findCourse_def
  updatePackageHours_def storePackageUpdate_def applyPackageUpdate_def

lemmas attendance_handler_defs =
  createAttendance_def createAttendanceBatch_def insertAttendance_def insertAttendanceMany_def
  batchData_def batchStudents_def batchEnrollments_def batchExistingRecords_def
  findAttendance_def

lemmas attendance_fixture_defs =
  recA_def attended_db_def presentA_def batch_of_def five_db_def

lemmas list_defs =
  listPackages_def listPayments_def listAttendance_def packageWhere_def paymentWhere_def
  attendanceWhere_def matchesPackage_def matchesPayment_def matchesAttendance_def
  admits_def admits_gte_def admits_lte_def truthy_def validPaging_def paginate_def pageOf_def
  limitOf_def

lemmas list_fixture_defs =
  shared_db_def pay1_def pay2_def recA_def recB_def pkgB_def pkg20_def ask_packages_def
  ask_payments_def ask_attendance_def

section \<open>Properties of the look-ups\<close>

lemma find_map_update:
  assumes "\<And>x. key (f x) = key x"
  shows "find (\<lambda>x. key x = k) (map (\<lambda>x. if key x = k then f x else x) xs) =
         map_option f (find (\<lambda>x. key x = k) xs)"
  using assms by (induction xs) auto


lemma find_append_last:
  "find P (xs @ [x]) = (case find P xs of None \<Rightarrow> (if P x then Some x else None) | Some y \<Rightarrow> Some y)"
  by (induction xs) auto

lemma find_unique:
  assumes "distinct (map f xs)" and "find (\<lambda>x. f x = k) xs = Some c" and "x \<in> set xs" and "f x = k"
  shows "x = c"
proof -
  from assms(2) have "c \<in> set xs" and "f c = k"
    by (auto simp: find_Some_iff)
  with assms(1,3,4) show ?thesis
    by (metis distinct_map inj_onD)
qed

lemma filter_key_one:
  assumes "distinct (map f xs)" and "x \<in> set xs"
  shows "length (filter (\<lambda>y. f y = f x) xs) = 1"
  using assms
proof (induction xs)
  case Nil
  then show ?case by simp
next
  case (Cons a xs)
  show ?case
  proof (cases "a = x")
    case True
    have "f x \<notin> f ` set xs"
      using Cons.prems(1) True by simp
    then have "\<forall>y\<in>set xs. f y \<noteq> f x"
      by (metis imageI)
    then have "filter (\<lambda>y. f y = f x) xs = []"
      by (simp add: filter_empty_conv)
    then show ?thesis using True by simp
  next
    case False
    then have "x \<in> set xs" using Cons.prems(2) by simp
    moreover have "f a \<noteq> f x" using Cons.prems(1) calculation by auto
    ultimately show ?thesis using Cons by simp
  qed
qed


lemma transaction_two:
  "transaction f [w1, w2] d =
     (if f = Some 0 \<or> f = Some 1 then None
      else (case w1 d of None \<Rightarrow> None | Some d1 \<Rightarrow> w2 d1))"
proof (cases f)
  case None
  then show ?thesis by (simp split: option.splits)
next
  case (Some n)
  have "(n - 1 = 0) = (n = 0 \<or> n = 1)" by arith
  then show ?thesis using Some by (simp split: option.splits)
qed

lemma enrollWith_unfold:
  "enrollWith f d s cid =
     (if u_role s \<noteq> STUDENT then (Inl Forbidden, d)
      else (case findCourse d cid of
        None \<Rightarrow> (Inl CourseNotFound, d)
      | Some c \<Rightarrow>
         (if c_status c \<noteq> SCHEDULED then (Inl CourseNotEnrollable, d)
          else if findEnrollment d (u_id s) cid \<noteq> None then (Inl AlreadyEnrolled, d)
          else if currentStudents c \<ge> maxStudents c then (Inl CourseFull, d)
          else if f = Some 0 \<or> f = Some 1 then (Inl InternalError, d)
          else (Inr (), d\<lparr>studentCourses := studentCourses d @ [\<lparr>sc_studentId = u_id s, sc_courseId = cid\<rparr>],
                         courses := map (\<lambda>x. if c_id x = cid then x\<lparr>currentStudents := currentStudents x + 1\<rparr> else x)
                           (courses d)\<rparr>))))"
  unfolding enrollWith_def transaction_two
  by (auto simp: requireRole_def createStudentCourse_def incrementCurrentStudents_def
      findCourse_def split: option.splits)




lemma map_key_update:
  assumes "\<And>x. key (f x) = key x"
  shows "map key (map (\<lambda>x. if key x = k then f x else x) xs) = map key xs"
  using assms by (induction xs) auto

lemma find_map_update_other:
  assumes "\<And>x. key (f x) = key x" and "k \<noteq> k'"
  shows "find (\<lambda>x. key x = k) (map (\<lambda>x. if key x = k' then f x else x) xs) =
         find (\<lambda>x. key x = k) xs"
  using assms by (induction xs) auto

lemma find_append_keep:
  "find P xs = Some y \<Longrightarrow> find P (xs @ ys) = Some y"
  by (induction xs) auto

lemma findPackage_unique:
  assumes "distinct (map p_id (coursePackages d))" and "findPackage d pid = Some p"
    and "x \<in> set (coursePackages d)" and "p_id x = pid"
  shows "x = p"
  using assms find_unique [of p_id "coursePackages d" pid p x]
  by (simp add: findPackage_def)

lemma consume_result:
  "snd (consume now d u pid b) = d \<or>
   (\<exists>p. findPackage d pid = Some p \<and> p_status p = ACTIVE \<and> 1 \<le> hours b \<and>
        hours b \<le> totalHours p - usedHours p \<and>
        snd (consume now d u pid b) =
          updatePackageHours pid (usedHours p + hours b)
            (if totalHours p \<le> usedHours p + hours b then COMPLETED else ACTIVE) d)"
  by (auto simp: consume_def Let_def split: option.splits)

lemma updatePackage_result:
  "snd (updatePackage d u pid b) = d \<or> snd (updatePackage d u pid b) = storePackageUpdate pid b d"
  by (auto simp: updatePackage_def split: option.splits)

lemma purchaseWith_unfold:
  "purchaseWith f now pid payid d u b =
     (if u_role u \<noteq> STUDENT then (Inl Forbidden, d)
      else if pu_name b = [] \<or> \<not> isIntMin1 (pu_totalHours b) \<or> pu_price b < 0 \<or>
              \<not> isIntMin1 (pu_validDays b)
        then (Inl ValidationError, d)
      else (case addDays now (pu_validDays b) of
        None \<Rightarrow> (Inl InternalError, d)
      | Some e \<Rightarrow>
         (if f = Some 0 \<or> f = Some 1 \<or> findPackage d pid \<noteq> None \<or>
             find (\<lambda>q. pay_id q = payid) (payments d) \<noteq> None
            then (Inl InternalError, d)
          else (Inr (newPackage now e pid u b, newPayment now payid (newPackage now e pid u b) u b),
                d\<lparr>coursePackages := coursePackages d @ [newPackage now e pid u b],
                  payments := payments d @ [newPayment now payid (newPackage now e pid u b) u b]\<rparr>))))"
  unfolding purchaseWith_def transaction_two Let_def
  by (auto simp: requireRole_def insertPackage_def insertPayment_def
      newPackage_def newPayment_def split: option.splits)

lemma purchase_result:
  "snd (purchase now pid payid d u b) = d \<or>
   (\<exists>e. findPackage d pid = None \<and> 1 \<le> pu_totalHours b \<and>
    snd (purchase now pid payid d u b) =
      d\<lparr>coursePackages := coursePackages d @ [newPackage now e pid u b],
        payments := payments d @ [newPayment now payid (newPackage now e pid u b) u b]\<rparr>)"
  by (auto simp: purchase_def purchaseWith_unfold isIntMin1_def split: option.splits)

lemma findPackage_None:
  "findPackage d pid = None \<Longrightarrow> pid \<notin> set (map p_id (coursePackages d))"
  by (auto simp: findPackage_def find_None_iff)

lemma updateCourse_result:
  "snd (updateCourse d u cid b) = d \<or>
   (\<exists>c. findCourse d cid = Some c \<and> snd (updateCourse d u cid b) = storeCourseUpdate cid b d)"
  by (auto simp: updateCourse_def Let_def split: option.splits)


lemma findCourse_unique:
  assumes "course_ids_unique d" and "findCourse d cid = Some c" and "x \<in> set (courses d)" and "c_id x = cid"
  shows "x = c"
  using assms find_unique [of c_id "courses d" cid c x]
  by (simp add: course_ids_unique_def findCourse_def)

section \<open>Counting the rows of a batch\<close>

lemma length_filter_ids:
  assumes "distinct xs" and "inj_on key {x \<in> set xs. P x}"
  shows "(length (filter (\<lambda>x. key x \<in> set ids \<and> P x) xs) = length ids) =
         (distinct ids \<and> (\<forall>i\<in>set ids. \<exists>x\<in>set xs. key x = i \<and> P x))"
proof -
  let ?F = "filter (\<lambda>x. key x \<in> set ids \<and> P x) xs"
  let ?S = "{i \<in> set ids. \<exists>x\<in>set xs. key x = i \<and> P x}"
  have "distinct ?F" using assms(1) by simp
  then have len: "length ?F = card (set ?F)"
    by (rule distinct_card [symmetric])
  have "inj_on key (set ?F)"
    using assms(2) by (rule inj_on_subset) auto
  then have "card (key ` set ?F) = card (set ?F)"
    by (rule card_image)
  moreover have "key ` set ?F = ?S" by auto
  ultimately have cardS: "length ?F = card ?S"
    using len by simp
  have sub: "?S \<subseteq> set ids" by auto
  have le: "card ?S \<le> card (set ids)"
    using sub by (simp add: card_mono)
  have le2: "card (set ids) \<le> length ids"
    by (rule card_length)
  show ?thesis
  proof
    assume eq: "length ?F = length ids"
    then have c: "card (set ids) = length ids" and s: "card ?S = card (set ids)"
      using cardS le le2 by simp_all
    from c have "distinct ids" by (rule card_distinct)
    moreover have "?S = set ids"
      using sub s by (simp add: card_subset_eq)
    ultimately show "distinct ids \<and> (\<forall>i\<in>set ids. \<exists>x\<in>set xs. key x = i \<and> P x)"
      by blast
  next
    assume h: "distinct ids \<and> (\<forall>i\<in>set ids. \<exists>x\<in>set xs. key x = i \<and> P x)"
    then have "?S = set ids" by auto
    then have "card ?S = length ids"
      using h by (simp add: distinct_card)
    then show "length ?F = length ids"
      using cardS by simp
  qed
qed

lemma batchStudents_length:
  assumes "user_ids_unique d"
  shows "(length (batchStudents d ids) = length ids) =
         (distinct ids \<and> (\<forall>i\<in>set ids. is_student d i))"
proof -
  have dx: "distinct (users d)" and inj: "inj_on u_id (set (users d))"
    using assms by (simp_all add: user_ids_unique_def distinct_map)
  have "inj_on u_id {x \<in> set (users d). u_role x = STUDENT}"
    using inj by (rule inj_on_subset) auto
  from length_filter_ids [OF dx this, of ids] show ?thesis
    by (simp add: batchStudents_def is_student_def)
qed

lemma findEnrollment_iff:
  "(findEnrollment d sid cid \<noteq> None) =
   (\<exists>l\<in>set (studentCourses d). sc_studentId l = sid \<and> sc_courseId l = cid)"
  by (auto simp: findEnrollment_def find_None_iff)

lemma findAttendance_iff:
  "(findAttendance d sid cid \<noteq> None) =
   (\<exists>r\<in>set (attendanceRecords d). ar_studentId r = sid \<and> ar_courseId r = cid)"
  by (auto simp: findAttendance_def find_None_iff)

lemma batchEnrollments_length:
  assumes "links_unique d"
  shows "(length (batchEnrollments d cid ids) = length ids) =
         (distinct ids \<and> (\<forall>i\<in>set ids. findEnrollment d i cid \<noteq> None))"
proof -
  have dx: "distinct (studentCourses d)"
    and inj: "inj_on (\<lambda>l. (sc_studentId l, sc_courseId l)) (set (studentCourses d))"
    using assms by (simp_all add: links_unique_def distinct_map)
  have "inj_on sc_studentId {x \<in> set (studentCourses d). sc_courseId x = cid}"
  proof (rule inj_onI)
    fix x y
    assume "x \<in> {x \<in> set (studentCourses d). sc_courseId x = cid}"
      and "y \<in> {x \<in> set (studentCourses d). sc_courseId x = cid}"
      and "sc_studentId x = sc_studentId y"
    then show "x = y"
      using inj by (auto dest: inj_onD)
  qed
  from length_filter_ids [OF dx this, of ids]
  have "(length (batchEnrollments d cid ids) = length ids) =
        (distinct ids \<and> (\<forall>i\<in>set ids. \<exists>x\<in>set (studentCourses d).
            sc_studentId x = i \<and> sc_courseId x = cid))"
    by (simp add: batchEnrollments_def)
  then show ?thesis
    unfolding findEnrollment_iff .
qed

lemma batchExistingRecords_length:
  "(length (batchExistingRecords d cid ids) > 0) =
   (\<exists>i\<in>set ids. findAttendance d i cid \<noteq> None)"
  unfolding findAttendance_iff
  by (auto simp: batchExistingRecords_def filter_empty_conv)

lemma insertAttendanceMany_batch:
  assumes "distinct (map bi_studentId records)"
    and "\<forall>i\<in>set (map bi_studentId records). findAttendance d i cid = None"
  shows "insertAttendanceMany (batchData now cid records) d =
         Some (d\<lparr>attendanceRecords := attendanceRecords d @ batchData now cid records\<rparr>)"
proof -
  have "map (\<lambda>r. (ar_studentId r, ar_courseId r)) (batchData now cid records) =
        map (\<lambda>i. (i, cid)) (map bi_studentId records)"
    by (simp add: batchData_def)
  moreover have "distinct (map (\<lambda>i. (i, cid)) (map bi_studentId records))"
    using assms(1) by (simp add: distinct_map inj_on_def del: map_map)
  ultimately have "distinct (map (\<lambda>r. (ar_studentId r, ar_courseId r)) (batchData now cid records))"
    by simp
  moreover have "\<not> (\<exists>r\<in>set (batchData now cid records).
                      findAttendance d (ar_studentId r) (ar_courseId r) \<noteq> None)"
    using assms(2) by (auto simp: batchData_def)
  ultimately show ?thesis
    by (simp add: insertAttendanceMany_def)
qed

lemma createAttendanceBatch_unfold:
  assumes "user_ids_unique d" and "links_unique d"
    and "requireRole [ADMIN, TEACHER] u" and "findCourse d (bb_courseId b) = Some c"
    and "teacherId c = u_id u \<or> u_role u = ADMIN"
  shows "createAttendanceBatch now d u b =
     (if \<not> (distinct (map bi_studentId (bb_records b)) \<and>
             (\<forall>i\<in>set (map bi_studentId (bb_records b)). is_student d i))
        then (Inl SomeStudentsInvalid, d)
      else if \<not> (\<forall>i\<in>set (map bi_studentId (bb_records b)). findEnrollment d i (bb_courseId b) \<noteq> None)
        then (Inl SomeNotEnrolled, d)
      else if (\<exists>i\<in>set (map bi_studentId (bb_records b)). findAttendance d i (bb_courseId b) \<noteq> None)
        then (Inl SomeRecordsExist, d)
      else (Inr (length (bb_records b)),
            d\<lparr>attendanceRecords :=
                attendanceRecords d @ batchData now (bb_courseId b) (bb_records b)\<rparr>))"
proof -
  let ?ids = "map bi_studentId (bb_records b)"
  note s = batchStudents_length [OF assms(1), of ?ids]
  note e = batchEnrollments_length [OF assms(2), of "bb_courseId b" ?ids]
  note x = batchExistingRecords_length [of d "bb_courseId b" ?ids]
  show ?thesis
  proof (cases "distinct ?ids \<and> (\<forall>i\<in>set ?ids. is_student d i)")
    case False
    then have "length (batchStudents d ?ids) \<noteq> length ?ids" using s by blast
    then show ?thesis
      using assms(3-5) False by (auto simp: createAttendanceBatch_def Let_def)
  next
    case ok1: True
    then have l1: "length (batchStudents d ?ids) = length ?ids" using s by blast
    show ?thesis
    proof (cases "\<forall>i\<in>set ?ids. findEnrollment d i (bb_courseId b) \<noteq> None")
      case False
      then have "length (batchEnrollments d (bb_courseId b) ?ids) \<noteq> length ?ids" using e by blast
      then show ?thesis
        using assms(3-5) ok1 l1 False by (auto simp: createAttendanceBatch_def Let_def)
    next
      case ok2: True
      then have l2: "length (batchEnrollments d (bb_courseId b) ?ids) = length ?ids"
        using e ok1 by blast
      show ?thesis
      proof (cases "\<exists>i\<in>set ?ids. findAttendance d i (bb_courseId b) \<noteq> None")
        case True
        then have "length (batchExistingRecords d (bb_courseId b) ?ids) > 0" using x by blast
        then show ?thesis
          using assms(3-5) ok1 ok2 l1 l2 True by (auto simp: createAttendanceBatch_def Let_def)
      next
        case ok3: False
        then have l3: "\<not> length (batchExistingRecords d (bb_courseId b) ?ids) > 0" using x by blast
        have ins: "insertAttendanceMany (batchData now (bb_courseId b) (bb_records b)) d =
           Some (d\<lparr>attendanceRecords :=
                attendanceRecords d @ batchData now (bb_courseId b) (bb_records b)\<rparr>)"
          using ok1 ok3 by (intro insertAttendanceMany_batch) auto
        have "createAttendanceBatch now d u b =
            (Inr (length (bb_records b)),
             d\<lparr>attendanceRecords :=
                attendanceRecords d @ batchData now (bb_courseId b) (bb_records b)\<rparr>)"
          using assms(3-5) l1 l2 l3 ins
          by (simp add: createAttendanceBatch_def Let_def batchData_def)
        then show ?thesis
          using ok1 ok2 ok3 by simp
      qed
    qed
  qed
qed

section \<open>Consuming hours\<close>




section \<open>Teacher time conflicts\<close>

lemma overlaps_iff:
  "start < endt \<Longrightarrow> startTime c < endTime c \<Longrightarrow>
   overlaps start endt c = (startTime c < endt \<and> start < endTime c)"
  by (auto simp: overlaps_def)

lemma intervals_intersect_iff:
  assumes "s < e" and "start < endt"
  shows "intervals_intersect s e start endt = (s < endt \<and> start < e)"
proof
  assume "intervals_intersect s e start endt"
  then obtain x where "x \<in> {s..<e} \<inter> {start..<endt}"
    unfolding intervals_intersect_def by blast
  then show "s < endt \<and> start < e" by auto
next
  assume h: "s < endt \<and> start < e"
  have "max s start \<in> {s..<e} \<inter> {start..<endt}" using assms h by auto
  then show "intervals_intersect s e start endt"
    unfolding intervals_intersect_def by blast
qed

lemma conflictingCourse_iff:
  assumes "start < endt" and "\<forall>c\<in>set (courses d). startTime c < endTime c"
  shows "(conflictingCourse d tid start endt \<noteq> None) =
         (\<exists>c\<in>set (courses d). teacherId c = tid \<and> (c_status c = SCHEDULED \<or> c_status c = IN_PROGRESS) \<and>
             startTime c < endt \<and> start < endTime c)"
  using assms unfolding conflictingCourse_def find_None_iff
  by (auto simp: overlaps_iff)

lemma conflictingCourseExcept_iff:
  assumes "start < endt" and "\<forall>c\<in>set (courses d). startTime c < endTime c"
  shows "(conflictingCourseExcept d cid tid start endt \<noteq> None) =
         (\<exists>c\<in>set (courses d). c_id c \<noteq> cid \<and> teacherId c = tid \<and>
             (c_status c = SCHEDULED \<or> c_status c = IN_PROGRESS) \<and>
             startTime c < endt \<and> start < endTime c)"
  using assms unfolding conflictingCourseExcept_def find_None_iff
  by (auto simp: overlaps_iff)

lemma createCourse_conflict:
  assumes "requireRole [ADMIN, TEACHER] u" and "cb_title b \<noteq> []"
    and "\<forall>m. cb_maxStudents b = Some m \<longrightarrow> 1 \<le> m"
    and "cb_startTime b < cb_endTime b" and "now < cb_startTime b"
    and "findUser d (finalTeacherId u b) = Some t" and "u_role t = TEACHER"
  shows "(fst (createCourse now newId d u b) = Inl TimeConflict) =
         (conflictingCourse d (finalTeacherId u b) (cb_startTime b) (cb_endTime b) \<noteq> None)"
  using assms
  by (auto simp: createCourse_def Let_def split: option.splits)

lemma updateCourse_conflict:
  assumes "requireRole [ADMIN, TEACHER] u" and "ub_title b \<noteq> Some []"
    and "\<forall>m. ub_maxStudents b = Some m \<longrightarrow> 1 \<le> m"
    and "findCourse d cid = Some existing"
    and "teacherId existing = u_id u \<or> u_role u = ADMIN"
    and "ub_startTime b = Some start" and "ub_endTime b = Some endt" and "start < endt"
  shows "(fst (updateCourse d u cid b) = Inl TimeConflict) =
         (conflictingCourseExcept d cid (teacherId existing) start endt \<noteq> None)"
  using assms
  by (auto simp: updateCourse_def Let_def split: option.splits)

text \<open>
  The stored courses start before they end: creation and update reject a window whose
  start is not before its end.
\<close>

lemma createCourse_times_ok:
  assumes "times_ok d"
  shows "times_ok (snd (createCourse now newId d u b))"
  using assms
  by (auto simp: createCourse_def Let_def insertCourse_def times_ok_def split: option.splits)

lemma updateCourse_times_ok:
  assumes "times_ok d" and "course_ids_unique d"
  shows "times_ok (snd (updateCourse d u cid b))"
proof (cases "snd (updateCourse d u cid b) = d")
  case True
  then show ?thesis using assms(1) by simp
next
  case False
  then obtain c where c: "findCourse d cid = Some c"
    and s: "snd (updateCourse d u cid b) = storeCourseUpdate cid b d"
    using updateCourse_result [of d u cid b] by blast
  have ok: "startTime (applyCourseUpdate b c) < endTime (applyCourseUpdate b c)"
  proof -
    have "c \<in> set (courses d)"
      using c by (auto simp: findCourse_def find_Some_iff)
    then have "startTime c < endTime c"
      using assms(1) by (simp add: times_ok_def)
    then show ?thesis
      using False c
      by (auto simp: updateCourse_def Let_def applyCourseUpdate_def split: option.splits if_splits)
  qed
  have "startTime x < endTime x" if "x \<in> set (courses (storeCourseUpdate cid b d))" for x
  proof -
    from that obtain y where y: "y \<in> set (courses d)"
      and x: "x = (if c_id y = cid then applyCourseUpdate b y else y)"
      by (auto simp: storeCourseUpdate_def)
    show ?thesis
    proof (cases "c_id y = cid")
      case True
      then have "y = c"
        using findCourse_unique [OF assms(2) c y] by simp
      then show ?thesis using True x ok by simp
    next
      case False
      then show ?thesis using x y assms(1) by (simp add: times_ok_def)
    qed
  qed
  then show ?thesis
    using s by (simp add: times_ok_def)
qed

text \<open>
  C3.  Against a requested window \<open>[start, endt)\<close> and the stored courses (each with its start
  before its end), the conflict queries of course creation and of course update find a
  course exactly when a SCHEDULED or IN_PROGRESS course of the teacher (other than the
  updated one) has a window \<open>[s, e)\<close> with \<open>s < endt\<close> and \<open>start < e\<close>, which is exactly when the
  two half-open windows intersect; the handlers answer with the overlap error exactly then.
  With a course of the teacher from 10:00 to 12:00, a new course from 11:00 to 13:00 is
  rejected with the overlap error and one from 12:00 to 13:00 is created.
\<close>

theorem teacher_time_conflict:
  assumes "start < endt" and "\<forall>c\<in>set (courses d). startTime c < endTime c"
  shows "(\<forall>c\<in>set (courses d).
            overlaps start endt c = intervals_intersect (startTime c) (endTime c) start endt) \<and>
         (\<forall>c\<in>set (courses d). overlaps start endt c = (startTime c < endt \<and> start < endTime c)) \<and>
         ((conflictingCourse d tid start endt \<noteq> None) =
            (\<exists>c\<in>set (courses d). teacherId c = tid \<and>
               (c_status c = SCHEDULED \<or> c_status c = IN_PROGRESS) \<and>
               startTime c < endt \<and> start < endTime c)) \<and>
         ((conflictingCourseExcept d cid tid start endt \<noteq> None) =
            (\<exists>c\<in>set (courses d). c_id c \<noteq> cid \<and> teacherId c = tid \<and>
               (c_status c = SCHEDULED \<or> c_status c = IN_PROGRESS) \<and>
               startTime c < endt \<and> start < endTime c)) \<and>
         (requireRole [ADMIN, TEACHER] u \<and> cb_title b \<noteq> [] \<and>
          (\<forall>m. cb_maxStudents b = Some m \<longrightarrow> 1 \<le> m) \<and>
          cb_startTime b = start \<and> cb_endTime b = endt \<and> now < start \<and>
          findUser d (finalTeacherId u b) = Some t \<and> u_role t = TEACHER \<longrightarrow>
            (fst (createCourse now newId d u b) = Inl TimeConflict) =
            (\<exists>c\<in>set (courses d). teacherId c = finalTeacherId u b \<and>
               (c_status c = SCHEDULED \<or> c_status c = IN_PROGRESS) \<and>
               startTime c < endt \<and> start < endTime c)) \<and>
         (requireRole [ADMIN, TEACHER] u \<and> ub_title ub \<noteq> Some [] \<and>
          (\<forall>m. ub_maxStudents ub = Some m \<longrightarrow> 1 \<le> m) \<and>
          findCourse d cid = Some existing \<and> (teacherId existing = u_id u \<or> u_role u = ADMIN) \<and>
          ub_startTime ub = Some start \<and> ub_endTime ub = Some endt \<longrightarrow>
            (fst (updateCourse d u cid ub) = Inl TimeConflict) =
            (\<exists>c\<in>set (courses d). c_id c \<noteq> cid \<and> teacherId c = teacherId existing \<and>
               (c_status c = SCHEDULED \<or> c_status c = IN_PROGRESS) \<and>
               startTime c < endt \<and> start < endTime c)) \<and>
         createCourse 0 ''course2'' (course_db (course1 20 0) []) teacher1
           \<lparr>cb_title = ''xingshu'', cb_startTime = 39600000, cb_endTime = 46800000,
            cb_maxStudents = None, cb_teacherId = None\<rparr> =
           (Inl TimeConflict, course_db (course1 20 0) []) \<and>
         fst (createCourse 0 ''course2'' (course_db (course1 20 0) []) teacher1
           \<lparr>cb_title = ''xingshu'', cb_startTime = 43200000, cb_endTime = 46800000,
            cb_maxStudents = None, cb_teacherId = None\<rparr>) =
           Inr \<lparr>c_id = ''course2'', title = ''xingshu'', teacherId = ''teacher1'',
                startTime = 43200000, endTime = 46800000, maxStudents = 20,
                currentStudents = 0, c_status = SCHEDULED\<rparr>"
proof -
  have a: "\<forall>c\<in>set (courses d).
            overlaps start endt c = intervals_intersect (startTime c) (endTime c) start endt"
    using assms by (simp add: overlaps_iff intervals_intersect_iff)
  have b: "\<forall>c\<in>set (courses d). overlaps start endt c = (startTime c < endt \<and> start < endTime c)"
    using assms by (simp add: overlaps_iff)
  note c = conflictingCourse_iff [OF assms]
  note e = conflictingCourseExcept_iff [OF assms]
  have f: "requireRole [ADMIN, TEACHER] u \<and> cb_title b \<noteq> [] \<and>
          (\<forall>m. cb_maxStudents b = Some m \<longrightarrow> 1 \<le> m) \<and>
          cb_startTime b = start \<and> cb_endTime b = endt \<and> now < start \<and>
          findUser d (finalTeacherId u b) = Some t \<and> u_role t = TEACHER \<longrightarrow>
            (fst (createCourse now newId d u b) = Inl TimeConflict) =
            (\<exists>c\<in>set (courses d). teacherId c = finalTeacherId u b \<and>
               (c_status c = SCHEDULED \<or> c_status c = IN_PROGRESS) \<and>
               startTime c < endt \<and> start < endTime c)"
  proof
    assume h: "requireRole [ADMIN, TEACHER] u \<and> cb_title b \<noteq> [] \<and>
          (\<forall>m. cb_maxStudents b = Some m \<longrightarrow> 1 \<le> m) \<and>
          cb_startTime b = start \<and> cb_endTime b = endt \<and> now < start \<and>
          findUser d (finalTeacherId u b) = Some t \<and> u_role t = TEACHER"
    then have "(fst (createCourse now newId d u b) = Inl TimeConflict) =
         (conflictingCourse d (finalTeacherId u b) (cb_startTime b) (cb_endTime b) \<noteq> None)"
      using assms(1) by (intro createCourse_conflict) auto
    then show "(fst (createCourse now newId d u b) = Inl TimeConflict) =
            (\<exists>c\<in>set (courses d). teacherId c = finalTeacherId u b \<and>
               (c_status c = SCHEDULED \<or> c_status c = IN_PROGRESS) \<and>
               startTime c < endt \<and> start < endTime c)"
      using h conflictingCourse_iff [OF assms, of "finalTeacherId u b"] by simp
  qed
  have g: "requireRole [ADMIN, TEACHER] u \<and> ub_title ub \<noteq> Some [] \<and>
          (\<forall>m. ub_maxStudents ub = Some m \<longrightarrow> 1 \<le> m) \<and>
          findCourse d cid = Some existing \<and> (teacherId existing = u_id u \<or> u_role u = ADMIN) \<and>
          ub_startTime ub = Some start \<and> ub_endTime ub = Some endt \<longrightarrow>
            (fst (updateCourse d u cid ub) = Inl TimeConflict) =
            (\<exists>c\<in>set (courses d). c_id c \<noteq> cid \<and> teacherId c = teacherId existing \<and>
               (c_status c = SCHEDULED \<or> c_status c = IN_PROGRESS) \<and>
               startTime c < endt \<and> start < endTime c)"
  proof
    assume h: "requireRole [ADMIN, TEACHER] u \<and> ub_title ub \<noteq> Some [] \<and>
          (\<forall>m. ub_maxStudents ub = Some m \<longrightarrow> 1 \<le> m) \<and>
          findCourse d cid = Some existing \<and> (teacherId existing = u_id u \<or> u_role u = ADMIN) \<and>
          ub_startTime ub = Some start \<and> ub_endTime ub = Some endt"
    then have "(fst (updateCourse d u cid ub) = Inl TimeConflict) =
         (conflictingCourseExcept d cid (teacherId existing) start endt \<noteq> None)"
      using assms(1) by (intro updateCourse_conflict) auto
    then show "(fst (updateCourse d u cid ub) = Inl TimeConflict) =
            (\<exists>c\<in>set (courses d). c_id c \<noteq> cid \<and> teacherId c = teacherId existing \<and>
               (c_status c = SCHEDULED \<or> c_status c = IN_PROGRESS) \<and>
               startTime c < endt \<and> start < endTime c)"
      using conflictingCourseExcept_iff [OF assms, of cid "teacherId existing"] by simp
  qed
  have s1: "createCourse 0 ''course2'' (course_db (course1 20 0) []) teacher1
           \<lparr>cb_title = ''xingshu'', cb_startTime = 39600000, cb_endTime = 46800000,
            cb_maxStudents = None, cb_teacherId = None\<rparr> =
           (Inl TimeConflict, course_db (course1 20 0) [])"
    by (simp add: createCourse_def requireRole_def finalTeacherId_def teacher1_def admin1_def
        course_db_def course1_def findUser_def conflictingCourse_def overlaps_def Let_def)
  have s2: "fst (createCourse 0 ''course2'' (course_db (course1 20 0) []) teacher1
           \<lparr>cb_title = ''xingshu'', cb_startTime = 43200000, cb_endTime = 46800000,
            cb_maxStudents = None, cb_teacherId = None\<rparr>) =
           Inr \<lparr>c_id = ''course2'', title = ''xingshu'', teacherId = ''teacher1'',
                startTime = 43200000, endTime = 46800000, maxStudents = 20,
                currentStudents = 0, c_status = SCHEDULED\<rparr>"
    by (simp add: createCourse_def requireRole_def finalTeacherId_def teacher1_def admin1_def
        course_db_def course1_def findUser_def findCourse_def conflictingCourse_def overlaps_def
        insertCourse_def Let_def)
  show ?thesis
    by (intro conjI) (fact a b c e f g s1 s2)+
qed

theorem teacher_time_conflict_witness:
  "conflictingCourse (course_db (course1 20 0) []) ''teacher1'' 39600000 46800000 \<noteq> None \<and>
   conflictingCourse (course_db (course1 20 0) []) ''teacher1'' 43200000 46800000 = None \<and>
   overlaps 39600000 46800000 (course1 20 0) \<and>
   \<not> overlaps 43200000 46800000 (course1 20 0)"
proof -
  have wf: "\<forall>c\<in>set (courses (course_db (course1 20 0) [])). startTime c < endTime c"
    by (simp add: course_db_def course1_def)
  have lt1: "(39600000::int) < 46800000" and lt2: "(43200000::int) < 46800000"
    by simp_all
  note t1 = teacher_time_conflict [OF lt1 wf, of "''teacher1''"]
  note t2 = teacher_time_conflict [OF lt2 wf, of "''teacher1''"]
  have "conflictingCourse (course_db (course1 20 0) []) ''teacher1'' 39600000 46800000 \<noteq> None"
    using t1 [THEN conjunct2, THEN conjunct2, THEN conjunct1]
    by (simp add: course_db_def course1_def)
  moreover have "overlaps 39600000 46800000 (course1 20 0)"
    using t1 [THEN conjunct2, THEN conjunct1]
    by (simp add: course_db_def course1_def)
  moreover have "conflictingCourse (course_db (course1 20 0) []) ''teacher1'' 43200000 46800000 = None"
    using t2 [THEN conjunct2, THEN conjunct2, THEN conjunct1]
    by (simp add: course_db_def course1_def)
  moreover have "\<not> overlaps 43200000 46800000 (course1 20 0)"
    using t2 [THEN conjunct2, THEN conjunct1]
    by (simp add: course_db_def course1_def)
  ultimately show ?thesis by simp
qed

section \<open>Enrollment\<close>

lemma findCourse_increment:
  "findCourse (d\<lparr>studentCourses := L,
       courses := map (\<lambda>x. if c_id x = cid then x\<lparr>currentStudents := currentStudents x + k\<rparr> else x)
                    (courses d)\<rparr>) cid =
   map_option (\<lambda>x. x\<lparr>currentStudents := currentStudents x + k\<rparr>) (findCourse d cid)"
  unfolding findCourse_def
  using find_map_update [of c_id "\<lambda>x. x\<lparr>currentStudents := currentStudents x + k\<rparr>" cid "courses d"]
  by simp

text \<open>
  C5.  For a student \<open>s\<close> and an existing course \<open>c\<close>, the enroll request is rejected by a
  check exactly when the status of \<open>c\<close> is not SCHEDULED, or a link for \<open>(s, c)\<close> already
  exists, or \<open>currentStudents\<close> has reached \<open>maxStudents\<close> (with the error of the first check
  that fails, in this order); when the store performs every write these are the only
  rejections.  Otherwise the link is created and the counter of \<open>c\<close> grows by one, in one
  transaction: when the store refuses one of the two writes (\<open>f\<close> is its position), the
  request fails and the database is the one before the request, also when it is the second
  write that fails, after the first one has added the link.  Whatever the request and the
  fault, a failed request leaves the database as it was and an accepted one has made both
  changes: never only one of the two.
\<close>

theorem enroll_checks_atomic:
  "(isl (fst (enrollWith f d s cid)) \<longrightarrow> snd (enrollWith f d s cid) = d) \<and>
   (\<not> isl (fst (enrollWith f d s cid)) \<longrightarrow>
      snd (enrollWith f d s cid) =
        d\<lparr>studentCourses := studentCourses d @ [\<lparr>sc_studentId = u_id s, sc_courseId = cid\<rparr>],
          courses := map (\<lambda>x. if c_id x = cid then x\<lparr>currentStudents := currentStudents x + 1\<rparr> else x)
                       (courses d)\<rparr>) \<and>
   (u_role s = STUDENT \<and> findCourse d cid = Some c \<longrightarrow>
      isl (fst (enroll d s cid)) =
        (c_status c \<noteq> SCHEDULED \<or> findEnrollment d (u_id s) cid \<noteq> None \<or>
         maxStudents c \<le> currentStudents c) \<and>
      isl (fst (enrollWith f d s cid)) =
        (c_status c \<noteq> SCHEDULED \<or> findEnrollment d (u_id s) cid \<noteq> None \<or>
         maxStudents c \<le> currentStudents c \<or> f = Some 0 \<or> f = Some 1) \<and>
      (c_status c \<noteq> SCHEDULED \<longrightarrow> fst (enrollWith f d s cid) = Inl CourseNotEnrollable) \<and>
      (c_status c = SCHEDULED \<and> findEnrollment d (u_id s) cid \<noteq> None \<longrightarrow>
         fst (enrollWith f d s cid) = Inl AlreadyEnrolled) \<and>
      (c_status c = SCHEDULED \<and> findEnrollment d (u_id s) cid = None \<and>
       maxStudents c \<le> currentStudents c \<longrightarrow> fst (enrollWith f d s cid) = Inl CourseFull) \<and>
      (c_status c = SCHEDULED \<and> findEnrollment d (u_id s) cid = None \<and>
       currentStudents c < maxStudents c \<longrightarrow>
         createStudentCourse (u_id s) cid d =
           Some (d\<lparr>studentCourses := studentCourses d @ [\<lparr>sc_studentId = u_id s, sc_courseId = cid\<rparr>]\<rparr>) \<and>
         (f = Some 0 \<or> f = Some 1 \<longrightarrow> enrollWith f d s cid = (Inl InternalError, d)) \<and>
         (f \<noteq> Some 0 \<and> f \<noteq> Some 1 \<longrightarrow> fst (enrollWith f d s cid) = Inr ())) \<and>
      (\<not> isl (fst (enrollWith f d s cid)) \<longrightarrow>
         findCourse (snd (enrollWith f d s cid)) cid = Some (c\<lparr>currentStudents := currentStudents c + 1\<rparr>) \<and>
         findEnrollment (snd (enrollWith f d s cid)) (u_id s) cid =
           Some \<lparr>sc_studentId = u_id s, sc_courseId = cid\<rparr>))"
proof -
  have a: "isl (fst (enrollWith f d s cid)) \<longrightarrow> snd (enrollWith f d s cid) = d"
    by (auto simp: enrollWith_unfold split: option.splits if_splits)
  have b: "\<not> isl (fst (enrollWith f d s cid)) \<longrightarrow>
      snd (enrollWith f d s cid) =
        d\<lparr>studentCourses := studentCourses d @ [\<lparr>sc_studentId = u_id s, sc_courseId = cid\<rparr>],
          courses := map (\<lambda>x. if c_id x = cid then x\<lparr>currentStudents := currentStudents x + 1\<rparr> else x)
                       (courses d)\<rparr>"
    by (auto simp: enrollWith_unfold split: option.splits if_splits)
  have c: "u_role s = STUDENT \<and> findCourse d cid = Some c \<longrightarrow>
      isl (fst (enroll d s cid)) =
        (c_status c \<noteq> SCHEDULED \<or> findEnrollment d (u_id s) cid \<noteq> None \<or>
         maxStudents c \<le> currentStudents c) \<and>
      isl (fst (enrollWith f d s cid)) =
        (c_status c \<noteq> SCHEDULED \<or> findEnrollment d (u_id s) cid \<noteq> None \<or>
         maxStudents c \<le> currentStudents c \<or> f = Some 0 \<or> f = Some 1) \<and>
      (c_status c \<noteq> SCHEDULED \<longrightarrow> fst (enrollWith f d s cid) = Inl CourseNotEnrollable) \<and>
      (c_status c = SCHEDULED \<and> findEnrollment d (u_id s) cid \<noteq> None \<longrightarrow>
         fst (enrollWith f d s cid) = Inl AlreadyEnrolled) \<and>
      (c_status c = SCHEDULED \<and> findEnrollment d (u_id s) cid = None \<and>
       maxStudents c \<le> currentStudents c \<longrightarrow> fst (enrollWith f d s cid) = Inl CourseFull) \<and>
      (c_status c = SCHEDULED \<and> findEnrollment d (u_id s) cid = None \<and>
       currentStudents c < maxStudents c \<longrightarrow>
         createStudentCourse (u_id s) cid d =
           Some (d\<lparr>studentCourses := studentCourses d @ [\<lparr>sc_studentId = u_id s, sc_courseId = cid\<rparr>]\<rparr>) \<and>
         (f = Some 0 \<or> f = Some 1 \<longrightarrow> enrollWith f d s cid = (Inl InternalError, d)) \<and>
         (f \<noteq> Some 0 \<and> f \<noteq> Some 1 \<longrightarrow> fst (enrollWith f d s cid) = Inr ())) \<and>
      (\<not> isl (fst (enrollWith f d s cid)) \<longrightarrow>
         findCourse (snd (enrollWith f d s cid)) cid = Some (c\<lparr>currentStudents := currentStudents c + 1\<rparr>) \<and>
         findEnrollment (snd (enrollWith f d s cid)) (u_id s) cid =
           Some \<lparr>sc_studentId = u_id s, sc_courseId = cid\<rparr>)"
  proof
    assume h: "u_role s = STUDENT \<and> findCourse d cid = Some c"
    have e: "enrollWith f d s cid =
         (if c_status c \<noteq> SCHEDULED then (Inl CourseNotEnrollable, d)
          else if findEnrollment d (u_id s) cid \<noteq> None then (Inl AlreadyEnrolled, d)
          else if currentStudents c \<ge> maxStudents c then (Inl CourseFull, d)
          else if f = Some 0 \<or> f = Some 1 then (Inl InternalError, d)
          else (Inr (), d\<lparr>studentCourses := studentCourses d @ [\<lparr>sc_studentId = u_id s, sc_courseId = cid\<rparr>],
          courses := map (\<lambda>x. if c_id x = cid then x\<lparr>currentStudents := currentStudents x + 1\<rparr> else x)
                       (courses d)\<rparr>))" for f
      using h by (simp add: enrollWith_unfold)
    have g: "findEnrollment d (u_id s) cid = None \<Longrightarrow>
       findEnrollment (d\<lparr>studentCourses := studentCourses d @ [\<lparr>sc_studentId = u_id s, sc_courseId = cid\<rparr>],
                         courses := X\<rparr>) (u_id s) cid = Some \<lparr>sc_studentId = u_id s, sc_courseId = cid\<rparr>" for X
      by (simp add: findEnrollment_def find_append_last)
    show "isl (fst (enroll d s cid)) =
        (c_status c \<noteq> SCHEDULED \<or> findEnrollment d (u_id s) cid \<noteq> None \<or>
         maxStudents c \<le> currentStudents c) \<and>
      isl (fst (enrollWith f d s cid)) =
        (c_status c \<noteq> SCHEDULED \<or> findEnrollment d (u_id s) cid \<noteq> None \<or>
         maxStudents c \<le> currentStudents c \<or> f = Some 0 \<or> f = Some 1) \<and>
      (c_status c \<noteq> SCHEDULED \<longrightarrow> fst (enrollWith f d s cid) = Inl CourseNotEnrollable) \<and>
      (c_status c = SCHEDULED \<and> findEnrollment d (u_id s) cid \<noteq> None \<longrightarrow>
         fst (enrollWith f d s cid) = Inl AlreadyEnrolled) \<and>
      (c_status c = SCHEDULED \<and> findEnrollment d (u_id s) cid = None \<and>
       maxStudents c \<le> currentStudents c \<longrightarrow> fst (enrollWith f d s cid) = Inl CourseFull) \<and>
      (c_status c = SCHEDULED \<and> findEnrollment d (u_id s) cid = None \<and>
       currentStudents c < maxStudents c \<longrightarrow>
         createStudentCourse (u_id s) cid d =
           Some (d\<lparr>studentCourses := studentCourses d @ [\<lparr>sc_studentId = u_id s, sc_courseId = cid\<rparr>]\<rparr>) \<and>
         (f = Some 0 \<or> f = Some 1 \<longrightarrow> enrollWith f d s cid = (Inl InternalError, d)) \<and>
         (f \<noteq> Some 0 \<and> f \<noteq> Some 1 \<longrightarrow> fst (enrollWith f d s cid) = Inr ())) \<and>
      (\<not> isl (fst (enrollWith f d s cid)) \<longrightarrow>
         findCourse (snd (enrollWith f d s cid)) cid = Some (c\<lparr>currentStudents := currentStudents c + 1\<rparr>) \<and>
         findEnrollment (snd (enrollWith f d s cid)) (u_id s) cid =
           Some \<lparr>sc_studentId = u_id s, sc_courseId = cid\<rparr>)"
      using h g by (auto simp: e enroll_def createStudentCourse_def findCourse_increment)
  qed
  show ?thesis
    by (intro conjI) (fact a b c)+
qed

theorem enroll_checks_atomic_witness:
  "enrollWith None (course_db (course1 1 0) []) studentA ''course1'' =
     (Inr (), course_db (course1 1 1) [linkA]) \<and>
   createStudentCourse ''studentA'' ''course1'' (course_db (course1 1 0) []) =
     Some (course_db (course1 1 0) [linkA]) \<and>
   enrollWith (Some 1) (course_db (course1 1 0) []) studentA ''course1'' =
     (Inl InternalError, course_db (course1 1 0) []) \<and>
   enrollWith (Some 0) (course_db (course1 1 0) []) studentA ''course1'' =
     (Inl InternalError, course_db (course1 1 0) []) \<and>
   fst (enrollWith None (course_db (course1 1 1) [linkA]) studentB ''course1'') = Inl CourseFull \<and>
   snd (enrollWith None (course_db (course1 1 1) [linkA]) studentB ''course1'') =
     course_db (course1 1 1) [linkA]"
proof -
  let ?d = "course_db (course1 1 0) []" and ?d' = "course_db (course1 1 1) [linkA]"
  have h0: "u_role studentA = STUDENT \<and> findCourse ?d ''course1'' = Some (course1 1 0)"
    by (simp add: fixture_defs findCourse_def)
  have h1: "u_role studentB = STUDENT \<and> findCourse ?d' ''course1'' = Some (course1 1 1)"
    by (simp add: fixture_defs findCourse_def)
  have open0: "c_status (course1 1 0) = SCHEDULED \<and> findEnrollment ?d (u_id studentA) ''course1'' = None \<and>
       currentStudents (course1 1 0) < maxStudents (course1 1 0)"
    by (simp add: fixture_defs findEnrollment_def)
  have full1: "c_status (course1 1 1) = SCHEDULED \<and> findEnrollment ?d' (u_id studentB) ''course1'' = None \<and>
       maxStudents (course1 1 1) \<le> currentStudents (course1 1 1)"
    by (simp add: fixture_defs findEnrollment_def)
  note tn = enroll_checks_atomic [of None ?d studentA "''course1''" "course1 1 0"]
  note t0 = enroll_checks_atomic [of "Some 0" ?d studentA "''course1''" "course1 1 0"]
  note t1 = enroll_checks_atomic [of "Some 1" ?d studentA "''course1''" "course1 1 0"]
  note tf = enroll_checks_atomic [of None ?d' studentB "''course1''" "course1 1 1"]
  note kn = tn [THEN conjunct2, THEN conjunct2, THEN mp, OF h0, THEN conjunct2, THEN conjunct2,
      THEN conjunct2, THEN conjunct2, THEN conjunct2, THEN conjunct1, THEN mp, OF open0]
  note k0 = t0 [THEN conjunct2, THEN conjunct2, THEN mp, OF h0, THEN conjunct2, THEN conjunct2,
      THEN conjunct2, THEN conjunct2, THEN conjunct2, THEN conjunct1, THEN mp, OF open0]
  note k1 = t1 [THEN conjunct2, THEN conjunct2, THEN mp, OF h0, THEN conjunct2, THEN conjunct2,
      THEN conjunct2, THEN conjunct2, THEN conjunct2, THEN conjunct1, THEN mp, OF open0]
  note kf = tf [THEN conjunct2, THEN conjunct2, THEN mp, OF h1]
  have ok: "fst (enrollWith None ?d studentA ''course1'') = Inr ()"
    using kn [THEN conjunct2, THEN conjunct2] by simp
  then have "\<not> isl (fst (enrollWith None ?d studentA ''course1''))"
    by simp
  from tn [THEN conjunct2, THEN conjunct1, THEN mp, OF this]
  have "snd (enrollWith None ?d studentA ''course1'') = ?d'"
    by (simp add: fixture_defs)
  with ok have a: "enrollWith None ?d studentA ''course1'' = (Inr (), ?d')"
    by (simp add: prod_eq_iff)
  have b: "createStudentCourse ''studentA'' ''course1'' ?d = Some (course_db (course1 1 0) [linkA])"
    using kn [THEN conjunct1] by (simp add: fixture_defs)
  have c: "enrollWith (Some 1) ?d studentA ''course1'' = (Inl InternalError, ?d)"
    using k1 [THEN conjunct2, THEN conjunct1] by simp
  have e: "enrollWith (Some 0) ?d studentA ''course1'' = (Inl InternalError, ?d)"
    using k0 [THEN conjunct2, THEN conjunct1] by simp
  have g: "fst (enrollWith None ?d' studentB ''course1'') = Inl CourseFull"
    using kf [THEN conjunct2, THEN conjunct2, THEN conjunct2, THEN conjunct2, THEN conjunct1,
        THEN mp, OF full1] .
  have i: "snd (enrollWith None ?d' studentB ''course1'') = ?d'"
    using tf [THEN conjunct1] g by simp
  show ?thesis
    by (intro conjI) (fact a b c e g i)+
qed

section \<open>The enrolled-count invariant\<close>












section \<open>The balance of a package\<close>

lemma consume_package_inv:
  assumes "package_inv d"
  shows "package_inv (snd (consume now d u pid b))"
proof -
  from consume_result [of now d u pid b] show ?thesis
  proof
    assume "snd (consume now d u pid b) = d"
    then show ?thesis using assms by simp
  next
    assume "\<exists>p. findPackage d pid = Some p \<and> p_status p = ACTIVE \<and> 1 \<le> hours b \<and>
        hours b \<le> totalHours p - usedHours p \<and>
        snd (consume now d u pid b) =
          updatePackageHours pid (usedHours p + hours b)
            (if totalHours p \<le> usedHours p + hours b then COMPLETED else ACTIVE) d"
    then obtain p where p: "findPackage d pid = Some p" and h: "hours b \<le> totalHours p - usedHours p"
      and d': "snd (consume now d u pid b) =
          updatePackageHours pid (usedHours p + hours b)
            (if totalHours p \<le> usedHours p + hours b then COMPLETED else ACTIVE) d"
      by blast
    let ?f = "\<lambda>q. q\<lparr>usedHours := usedHours p + hours b,
                      p_status := (if totalHours p \<le> usedHours p + hours b then COMPLETED else ACTIVE)\<rparr>"
    have ids: "distinct (map p_id (coursePackages (snd (consume now d u pid b))))"
      using assms
      by (simp add: d' updatePackageHours_def package_inv_def map_key_update del: map_map)
    have rows: "usedHours x \<le> totalHours x \<and> (totalHours x \<le> usedHours x \<longrightarrow> p_status x = COMPLETED)"
      if "x \<in> set (coursePackages (snd (consume now d u pid b)))" for x
    proof -
      from that obtain y where y: "y \<in> set (coursePackages d)"
        and x: "x = (if p_id y = pid then ?f y else y)"
        by (auto simp: d' updatePackageHours_def)
      show ?thesis
      proof (cases "p_id y = pid")
        case True
        then have "y = p"
          using findPackage_unique [of d pid p y] assms p y by (simp add: package_inv_def)
        then show ?thesis using True x h by auto
      next
        case False
        then show ?thesis using x y assms by (auto simp: package_inv_def)
      qed
    qed
    show ?thesis
      unfolding package_inv_def using ids rows by blast
  qed
qed

lemma updatePackage_package_inv:
  assumes "package_inv d" and "pb_status b = None" and "pb_usedHours b = None" and "pb_totalHours b = None"
  shows "package_inv (snd (updatePackage d u pid b))"
proof -
  have "package_inv (storePackageUpdate pid b d)"
  proof -
    have ids: "distinct (map p_id (coursePackages (storePackageUpdate pid b d)))"
      using assms(1)
      by (simp add: storePackageUpdate_def package_inv_def map_key_update applyPackageUpdate_def
          del: map_map)
    have rows: "usedHours x \<le> totalHours x \<and> (totalHours x \<le> usedHours x \<longrightarrow> p_status x = COMPLETED)"
      if "x \<in> set (coursePackages (storePackageUpdate pid b d))" for x
    proof -
      from that obtain y where y: "y \<in> set (coursePackages d)"
        and x: "x = (if p_id y = pid then applyPackageUpdate b y else y)"
        by (auto simp: storePackageUpdate_def)
      then show ?thesis
        using assms by (auto simp: package_inv_def applyPackageUpdate_def)
    qed
    show ?thesis
      unfolding package_inv_def using ids rows by blast
  qed
  then show ?thesis
    using assms(1) updatePackage_result [of d u pid b] by auto
qed

lemma purchase_package_inv:
  assumes "package_inv d"
  shows "package_inv (snd (purchase now pid payid d u b))"
proof -
  from purchase_result [of now pid payid d u b] show ?thesis
  proof
    assume "snd (purchase now pid payid d u b) = d"
    then show ?thesis using assms by simp
  next
    assume "\<exists>e. findPackage d pid = None \<and> 1 \<le> pu_totalHours b \<and>
      snd (purchase now pid payid d u b) =
        d\<lparr>coursePackages := coursePackages d @ [newPackage now e pid u b],
          payments := payments d @ [newPayment now payid (newPackage now e pid u b) u b]\<rparr>"
    then obtain e where h: "findPackage d pid = None \<and> 1 \<le> pu_totalHours b \<and>
      snd (purchase now pid payid d u b) =
        d\<lparr>coursePackages := coursePackages d @ [newPackage now e pid u b],
          payments := payments d @ [newPayment now payid (newPackage now e pid u b) u b]\<rparr>"
      by blast
    then have "pid \<notin> set (map p_id (coursePackages d))"
      using findPackage_None by blast
    then show ?thesis
      using assms h by (auto simp: package_inv_def newPackage_def)
  qed
qed

lemma package_step_inv:
  assumes "package_inv d" and "keeps_hours r"
  shows "package_inv (package_step d r)"
  using assms
  by (cases r) (simp_all add: consume_package_inv updatePackage_package_inv purchase_package_inv)

lemma package_step_used_up:
  assumes "used_up d pid used tot" and "keeps_hours r"
  shows "used_up (package_step d r) pid used tot"
proof -
  from assms(1) obtain p where p: "findPackage d pid = Some p" "usedHours p = used"
    "totalHours p = tot" "p_status p = COMPLETED"
    by (auto simp: used_up_def split: option.splits)
  show ?thesis
  proof (cases r)
    case (Consume now u pid' b)
    from consume_result [of now d u pid' b] show ?thesis
    proof
      assume "snd (consume now d u pid' b) = d"
      then show ?thesis using Consume assms(1) by simp
    next
      assume "\<exists>q. findPackage d pid' = Some q \<and> p_status q = ACTIVE \<and> 1 \<le> hours b \<and>
        hours b \<le> totalHours q - usedHours q \<and>
        snd (consume now d u pid' b) =
          updatePackageHours pid' (usedHours q + hours b)
            (if totalHours q \<le> usedHours q + hours b then COMPLETED else ACTIVE) d"
      then obtain q where q: "findPackage d pid' = Some q" "p_status q = ACTIVE"
        and d': "snd (consume now d u pid' b) =
          updatePackageHours pid' (usedHours q + hours b)
            (if totalHours q \<le> usedHours q + hours b then COMPLETED else ACTIVE) d"
        by blast
      have ne: "pid \<noteq> pid'"
        using p q by auto
      have "findPackage (snd (consume now d u pid' b)) pid = findPackage d pid"
        unfolding d' findPackage_def updatePackageHours_def
        using find_map_update_other [of p_id _ pid pid' "coursePackages d"] ne
        by simp
      then show ?thesis
        using Consume assms(1) by (simp add: used_up_def split: option.splits)
    qed
  next
    case (UpdatePackage u pid' b)
    from updatePackage_result [of d u pid' b] show ?thesis
    proof
      assume "snd (updatePackage d u pid' b) = d"
      then show ?thesis using UpdatePackage assms(1) by simp
    next
      assume s: "snd (updatePackage d u pid' b) = storePackageUpdate pid' b d"
      have k: "pb_status b = None" "pb_usedHours b = None" "pb_totalHours b = None"
        using assms(2) UpdatePackage by simp_all
      show ?thesis
      proof (cases "pid = pid'")
        case True
        have "findPackage (storePackageUpdate pid b d) pid =
              map_option (applyPackageUpdate b) (findPackage d pid)"
          unfolding findPackage_def storePackageUpdate_def
          using find_map_update [of p_id "applyPackageUpdate b" pid "coursePackages d"]
          by (simp add: applyPackageUpdate_def)
        then show ?thesis
          using UpdatePackage s True p k
          by (simp add: used_up_def applyPackageUpdate_def split: option.splits)
      next
        case False
        have "findPackage (storePackageUpdate pid' b d) pid = findPackage d pid"
          unfolding findPackage_def storePackageUpdate_def
          using find_map_update_other [of p_id "applyPackageUpdate b" pid pid' "coursePackages d"] False
          by (simp add: applyPackageUpdate_def)
        then show ?thesis
          using UpdatePackage s assms(1) by (simp add: used_up_def split: option.splits)
      qed
    qed
  next
    case (Purchase now pid' payid u b)
    from purchase_result [of now pid' payid d u b] show ?thesis
    proof
      assume "snd (purchase now pid' payid d u b) = d"
      then show ?thesis using Purchase assms(1) by simp
    next
      assume "\<exists>e. findPackage d pid' = None \<and> 1 \<le> pu_totalHours b \<and>
        snd (purchase now pid' payid d u b) =
          d\<lparr>coursePackages := coursePackages d @ [newPackage now e pid' u b],
            payments := payments d @ [newPayment now payid (newPackage now e pid' u b) u b]\<rparr>"
      then obtain e where d': "snd (purchase now pid' payid d u b) =
          d\<lparr>coursePackages := coursePackages d @ [newPackage now e pid' u b],
            payments := payments d @ [newPayment now payid (newPackage now e pid' u b) u b]\<rparr>"
        by blast
      have "findPackage (snd (purchase now pid' payid d u b)) pid = Some p"
        using p(1) by (simp add: d' findPackage_def find_append_keep)
      then show ?thesis
        using Purchase p by (simp add: used_up_def split: option.splits)
    qed
  qed
qed

text \<open>
  C4 (as amended).  From a database where every package has used hours at most its
  total hours and is COMPLETED once they are equal, any sequence of consume-hours,
  purchase and package-update requests in which no update sets the status, the used hours
  or the total hours leads to a database with the same property; and a package whose used
  hours have reached its total keeps its used hours, its total hours and the status
  COMPLETED throughout.
\<close>

theorem package_balance_kept:
  assumes "package_inv d" and "\<forall>r\<in>set rs. keeps_hours r"
  shows "package_inv (package_run d rs) \<and>
         (\<forall>p\<in>set (coursePackages (package_run d rs)).
            usedHours p \<le> totalHours p \<and> (totalHours p \<le> usedHours p \<longrightarrow> p_status p = COMPLETED)) \<and>
         (\<forall>p. findPackage d pid = Some p \<and> totalHours p \<le> usedHours p \<longrightarrow>
            (\<exists>p'. findPackage (package_run d rs) pid = Some p' \<and> p_status p' = COMPLETED \<and>
                  usedHours p' = usedHours p \<and> totalHours p' = totalHours p))"
proof -
  have inv: "package_inv (package_run d rs)"
    using assms
  proof (induction rs arbitrary: d)
    case Nil
    then show ?case by simp
  next
    case (Cons r rs)
    then show ?case by (simp add: package_step_inv)
  qed
  have keep: "used_up d pid used tot \<Longrightarrow> used_up (package_run d rs) pid used tot" for used tot
    using assms(2)
  proof (induction rs arbitrary: d)
    case Nil
    then show ?case by simp
  next
    case (Cons r rs)
    then show ?case by (simp add: package_step_used_up)
  qed
  have fin: "\<exists>p'. findPackage (package_run d rs) pid = Some p' \<and> p_status p' = COMPLETED \<and>
                  usedHours p' = usedHours p \<and> totalHours p' = totalHours p"
    if "findPackage d pid = Some p \<and> totalHours p \<le> usedHours p" for p
  proof -
    from that have "p \<in> set (coursePackages d)"
      by (auto simp: findPackage_def find_Some_iff)
    then have "p_status p = COMPLETED"
      using assms(1) that by (auto simp: package_inv_def)
    then have "used_up d pid (usedHours p) (totalHours p)"
      using that by (auto simp: used_up_def split: option.splits)
    from keep [OF this] show ?thesis
      by (auto simp: used_up_def split: option.splits)
  qed
  show ?thesis
    using inv fin unfolding package_inv_def by blast
qed

text \<open>
  The admin update is not restricted in this way by the handler: a status is all it takes.
  After the package of 20 hours is used up and COMPLETED, the update with status ACTIVE is
  accepted, and the package is ACTIVE with 20 of 20 hours used.
\<close>

theorem package_balance_counterexample:
  "snd (consume 0 (package_db (pkg20 10 ACTIVE)) admin1 ''pkg1'' \<lparr>hours = 10, courseId = ''course1''\<rparr>) =
     package_db (pkg20 20 COMPLETED) \<and>
   updatePackage (package_db (pkg20 20 COMPLETED)) admin1 ''pkg1'' reactivate =
     (Inr (pkg20 20 ACTIVE), package_db (pkg20 20 ACTIVE)) \<and>
   findPackage (package_db (pkg20 20 ACTIVE)) ''pkg1'' = Some (pkg20 20 ACTIVE) \<and>
   totalHours (pkg20 20 ACTIVE) \<le> usedHours (pkg20 20 ACTIVE) \<and>
   p_status (pkg20 20 ACTIVE) = ACTIVE \<and>
   p_status (pkg20 20 ACTIVE) \<noteq> COMPLETED"
  by (simp add: package_handler_defs fixture_defs reactivate_def Let_def)

theorem package_balance_kept_witness:
  "package_inv (package_run (package_db (pkg20 10 ACTIVE))
     [Consume 0 admin1 ''pkg1'' \<lparr>hours = 10, courseId = ''course1''\<rparr>,
      UpdatePackage admin1 ''pkg1'' rename,
      Consume 0 teacher1 ''pkg1'' \<lparr>hours = 1, courseId = ''course1''\<rparr>,
      Purchase 0 ''pkg2'' ''pay2'' studentA buy10]) \<and>
   (\<exists>p'. findPackage (package_run (package_db (pkg20 20 COMPLETED))
        [UpdatePackage admin1 ''pkg1'' rename,
         Consume 0 teacher1 ''pkg1'' \<lparr>hours = 1, courseId = ''course1''\<rparr>,
         Purchase 0 ''pkg2'' ''pay2'' studentA buy10]) ''pkg1'' = Some p' \<and>
      p_status p' = COMPLETED \<and> usedHours p' = usedHours (pkg20 20 COMPLETED) \<and>
      totalHours p' = totalHours (pkg20 20 COMPLETED))"
proof -
  let ?rs = "[UpdatePackage admin1 ''pkg1'' rename,
         Consume 0 teacher1 ''pkg1'' \<lparr>hours = 1, courseId = ''course1''\<rparr>,
         Purchase 0 ''pkg2'' ''pay2'' studentA buy10]"
  let ?every = "Consume 0 admin1 ''pkg1'' \<lparr>hours = 10, courseId = ''course1''\<rparr> # ?rs"
  have i0: "package_inv (package_db (pkg20 10 ACTIVE))"
    and i1: "package_inv (package_db (pkg20 20 COMPLETED))"
    by (simp_all add: package_inv_def fixture_defs)
  have k: "\<forall>r\<in>set ?rs. keeps_hours r" and kk: "\<forall>r\<in>set ?every. keeps_hours r"
    by (simp_all add: rename_def)
  have f: "findPackage (package_db (pkg20 20 COMPLETED)) ''pkg1'' = Some (pkg20 20 COMPLETED) \<and>
           totalHours (pkg20 20 COMPLETED) \<le> usedHours (pkg20 20 COMPLETED)"
    by (simp add: findPackage_def fixture_defs)
  have a: "package_inv (package_run (package_db (pkg20 10 ACTIVE)) ?every)"
    using package_balance_kept [OF i0 kk, THEN conjunct1] .
  have b: "\<exists>p'. findPackage (package_run (package_db (pkg20 20 COMPLETED)) ?rs) ''pkg1'' = Some p' \<and>
      p_status p' = COMPLETED \<and> usedHours p' = usedHours (pkg20 20 COMPLETED) \<and>
      totalHours p' = totalHours (pkg20 20 COMPLETED)"
    using package_balance_kept [OF i1 k, THEN conjunct2, THEN conjunct2, THEN spec, THEN mp, OF f] .
  show ?thesis
    by (rule conjI [OF a b])
qed

section \<open>Purchasing a package\<close>

text \<open>
  C8.  A purchase either fails and leaves the database as it was, or it adds exactly one
  package and one payment: the payment is PAID, of the price of the package, for that
  package and that student, and the package expires \<open>validDays\<close> days (of 86400000
  milliseconds) after the time of the purchase, which is a date of the range of dates.  It
  succeeds exactly when the caller is a student, the body is valid, the expiry is in the
  range of dates and the store performs both creates (\<open>f\<close> is the position of the create it
  refuses).  When the create of the payment fails, after the create of the package has
  gone through, the package is not kept.
\<close>

theorem purchase_atomic:
  "(isl (fst (purchaseWith f now pid payid d u b)) \<longrightarrow> snd (purchaseWith f now pid payid d u b) = d) \<and>
   (\<not> isl (fst (purchaseWith f now pid payid d u b)) \<longrightarrow>
      (\<exists>pkg pay. fst (purchaseWith f now pid payid d u b) = Inr (pkg, pay) \<and>
         snd (purchaseWith f now pid payid d u b) =
           d\<lparr>coursePackages := coursePackages d @ [pkg], payments := payments d @ [pay]\<rparr> \<and>
         pay_status pay = PAID \<and> amount pay = price pkg \<and> price pkg = pu_price b \<and>
         packageId pay = Some (p_id pkg) \<and> p_id pkg = pid \<and>
         pay_studentId pay = u_id u \<and> p_studentId pkg = u_id u \<and>
         purchasedAt pkg = now \<and> expiresAt pkg = now + pu_validDays b * 86400000 \<and>
         \<bar>expiresAt pkg\<bar> \<le> 8640000000000000 \<and>
         totalHours pkg = pu_totalHours b \<and> usedHours pkg = 0 \<and> p_status pkg = ACTIVE)) \<and>
   ((\<not> isl (fst (purchaseWith f now pid payid d u b))) =
      (u_role u = STUDENT \<and> pu_name b \<noteq> [] \<and> 1 \<le> pu_totalHours b \<and>
       pu_totalHours b < 1000000000000000000000 \<and> 0 \<le> pu_price b \<and> 1 \<le> pu_validDays b \<and>
       \<bar>now\<bar> \<le> 8640000000000000 \<and> now + pu_validDays b * 86400000 \<le> 8640000000000000 \<and>
       findPackage d pid = None \<and>
       find (\<lambda>q. pay_id q = payid) (payments d) = None \<and> f \<noteq> Some 0 \<and> f \<noteq> Some 1)) \<and>
   (u_role u = STUDENT \<and> pu_name b \<noteq> [] \<and> 1 \<le> pu_totalHours b \<and>
       pu_totalHours b < 1000000000000000000000 \<and> 0 \<le> pu_price b \<and> 1 \<le> pu_validDays b \<and>
       \<bar>now\<bar> \<le> 8640000000000000 \<and> now + pu_validDays b * 86400000 \<le> 8640000000000000 \<and>
       findPackage d pid = None \<longrightarrow>
      insertPackage (newPackage now (now + pu_validDays b * 86400000) pid u b) d =
        Some (d\<lparr>coursePackages := coursePackages d @ [newPackage now (now + pu_validDays b * 86400000) pid u b]\<rparr>) \<and>
      (f = Some 1 \<or> find (\<lambda>q. pay_id q = payid) (payments d) \<noteq> None \<longrightarrow>
         purchaseWith f now pid payid d u b = (Inl InternalError, d)))"
proof -
  have a: "isl (fst (purchaseWith f now pid payid d u b)) \<longrightarrow> snd (purchaseWith f now pid payid d u b) = d"
    by (auto simp: purchaseWith_unfold split: option.splits)
  have b: "\<not> isl (fst (purchaseWith f now pid payid d u b)) \<longrightarrow>
      (\<exists>pkg pay. fst (purchaseWith f now pid payid d u b) = Inr (pkg, pay) \<and>
         snd (purchaseWith f now pid payid d u b) =
           d\<lparr>coursePackages := coursePackages d @ [pkg], payments := payments d @ [pay]\<rparr> \<and>
         pay_status pay = PAID \<and> amount pay = price pkg \<and> price pkg = pu_price b \<and>
         packageId pay = Some (p_id pkg) \<and> p_id pkg = pid \<and>
         pay_studentId pay = u_id u \<and> p_studentId pkg = u_id u \<and>
         purchasedAt pkg = now \<and> expiresAt pkg = now + pu_validDays b * 86400000 \<and>
         \<bar>expiresAt pkg\<bar> \<le> 8640000000000000 \<and>
         totalHours pkg = pu_totalHours b \<and> usedHours pkg = 0 \<and> p_status pkg = ACTIVE)"
  proof
    assume ok: "\<not> isl (fst (purchaseWith f now pid payid d u b))"
    then obtain e where e: "addDays now (pu_validDays b) = Some e"
      by (auto simp: purchaseWith_unfold split: option.splits if_splits)
    then have r: "e = now + pu_validDays b * 86400000 \<and> \<bar>e\<bar> \<le> 8640000000000000"
      by (auto simp: addDays_def timeClip_def split: if_splits)
    let ?pkg = "newPackage now e pid u b"
    let ?pay = "newPayment now payid ?pkg u b"
    have "purchaseWith f now pid payid d u b =
          (Inr (?pkg, ?pay), d\<lparr>coursePackages := coursePackages d @ [?pkg],
                                payments := payments d @ [?pay]\<rparr>)"
      using ok e by (auto simp: purchaseWith_unfold split: if_splits)
    then have "fst (purchaseWith f now pid payid d u b) = Inr (?pkg, ?pay) \<and>
         snd (purchaseWith f now pid payid d u b) =
           d\<lparr>coursePackages := coursePackages d @ [?pkg], payments := payments d @ [?pay]\<rparr> \<and>
         pay_status ?pay = PAID \<and> amount ?pay = price ?pkg \<and> price ?pkg = pu_price b \<and>
         packageId ?pay = Some (p_id ?pkg) \<and> p_id ?pkg = pid \<and>
         pay_studentId ?pay = u_id u \<and> p_studentId ?pkg = u_id u \<and>
         purchasedAt ?pkg = now \<and> expiresAt ?pkg = now + pu_validDays b * 86400000 \<and>
         \<bar>expiresAt ?pkg\<bar> \<le> 8640000000000000 \<and>
         totalHours ?pkg = pu_totalHours b \<and> usedHours ?pkg = 0 \<and> p_status ?pkg = ACTIVE"
      using r [THEN conjunct1, symmetric] r [THEN conjunct2]
      by (simp add: newPackage_def newPayment_def del: abs_le_iff)
    then show "\<exists>pkg pay. fst (purchaseWith f now pid payid d u b) = Inr (pkg, pay) \<and>
         snd (purchaseWith f now pid payid d u b) =
           d\<lparr>coursePackages := coursePackages d @ [pkg], payments := payments d @ [pay]\<rparr> \<and>
         pay_status pay = PAID \<and> amount pay = price pkg \<and> price pkg = pu_price b \<and>
         packageId pay = Some (p_id pkg) \<and> p_id pkg = pid \<and>
         pay_studentId pay = u_id u \<and> p_studentId pkg = u_id u \<and>
         purchasedAt pkg = now \<and> expiresAt pkg = now + pu_validDays b * 86400000 \<and>
         \<bar>expiresAt pkg\<bar> \<le> 8640000000000000 \<and>
         totalHours pkg = pu_totalHours b \<and> usedHours pkg = 0 \<and> p_status pkg = ACTIVE"
      by blast
  qed
  have c: "(\<not> isl (fst (purchaseWith f now pid payid d u b))) =
      (u_role u = STUDENT \<and> pu_name b \<noteq> [] \<and> 1 \<le> pu_totalHours b \<and>
       pu_totalHours b < 1000000000000000000000 \<and> 0 \<le> pu_price b \<and> 1 \<le> pu_validDays b \<and>
       \<bar>now\<bar> \<le> 8640000000000000 \<and> now + pu_validDays b * 86400000 \<le> 8640000000000000 \<and>
       findPackage d pid = None \<and>
       find (\<lambda>q. pay_id q = payid) (payments d) = None \<and> f \<noteq> Some 0 \<and> f \<noteq> Some 1)"
    by (auto simp: purchaseWith_unfold addDays_def timeClip_def isIntMin1_def split: option.splits if_splits)
  have d: "u_role u = STUDENT \<and> pu_name b \<noteq> [] \<and> 1 \<le> pu_totalHours b \<and>
       pu_totalHours b < 1000000000000000000000 \<and> 0 \<le> pu_price b \<and> 1 \<le> pu_validDays b \<and>
       \<bar>now\<bar> \<le> 8640000000000000 \<and> now + pu_validDays b * 86400000 \<le> 8640000000000000 \<and>
       findPackage d pid = None \<longrightarrow>
      insertPackage (newPackage now (now + pu_validDays b * 86400000) pid u b) d =
        Some (d\<lparr>coursePackages := coursePackages d @ [newPackage now (now + pu_validDays b * 86400000) pid u b]\<rparr>) \<and>
      (f = Some 1 \<or> find (\<lambda>q. pay_id q = payid) (payments d) \<noteq> None \<longrightarrow>
         purchaseWith f now pid payid d u b = (Inl InternalError, d))"
  proof
    assume h: "u_role u = STUDENT \<and> pu_name b \<noteq> [] \<and> 1 \<le> pu_totalHours b \<and>
       pu_totalHours b < 1000000000000000000000 \<and> 0 \<le> pu_price b \<and> 1 \<le> pu_validDays b \<and>
       \<bar>now\<bar> \<le> 8640000000000000 \<and> now + pu_validDays b * 86400000 \<le> 8640000000000000 \<and>
       findPackage d pid = None"
    then have e: "addDays now (pu_validDays b) = Some (now + pu_validDays b * 86400000)"
      by (auto simp: addDays_def timeClip_def)
    show "insertPackage (newPackage now (now + pu_validDays b * 86400000) pid u b) d =
        Some (d\<lparr>coursePackages := coursePackages d @ [newPackage now (now + pu_validDays b * 86400000) pid u b]\<rparr>) \<and>
      (f = Some 1 \<or> find (\<lambda>q. pay_id q = payid) (payments d) \<noteq> None \<longrightarrow>
         purchaseWith f now pid payid d u b = (Inl InternalError, d))"
      using h e by (auto simp: purchaseWith_unfold insertPackage_def newPackage_def isIntMin1_def)
  qed
  show ?thesis
    by (intro conjI) (fact a b c d)+
qed

theorem purchase_atomic_witness:
  "fst (purchaseWith None 1000 ''pkg2'' ''pay2'' paid_db studentA buy10) =
     Inr (newPackage 1000 2592001000 ''pkg2'' studentA buy10,
          newPayment 1000 ''pay2'' (newPackage 1000 2592001000 ''pkg2'' studentA buy10) studentA buy10) \<and>
   expiresAt (newPackage 1000 2592001000 ''pkg2'' studentA buy10) = 2592001000 \<and>
   amount (newPayment 1000 ''pay2'' (newPackage 1000 2592001000 ''pkg2'' studentA buy10) studentA buy10) = 1200 \<and>
   insertPackage (newPackage 1000 2592001000 ''pkg2'' studentA buy10) paid_db =
     Some (paid_db\<lparr>coursePackages := [pkg20 0 ACTIVE, newPackage 1000 2592001000 ''pkg2'' studentA buy10]\<rparr>) \<and>
   purchaseWith (Some 1) 1000 ''pkg2'' ''pay2'' paid_db studentA buy10 = (Inl InternalError, paid_db) \<and>
   purchaseWith None 1000 ''pkg2'' ''pay1'' paid_db studentA buy10 = (Inl InternalError, paid_db) \<and>
   isl (fst (purchaseWith None 1000 ''pkg2'' ''pay2'' paid_db studentA (buy10\<lparr>pu_validDays := 100000000\<rparr>))) \<and>
   snd (purchaseWith None 1000 ''pkg2'' ''pay2'' paid_db studentA (buy10\<lparr>pu_validDays := 100000000\<rparr>)) =
     paid_db"
proof -
  let ?pkg = "newPackage 1000 2592001000 ''pkg2'' studentA buy10"
  let ?long = "buy10\<lparr>pu_validDays := 100000000\<rparr>"
  note t = purchase_atomic [of None 1000 "''pkg2''" "''pay2''" paid_db studentA buy10]
  note t1 = purchase_atomic [of "Some 1" 1000 "''pkg2''" "''pay2''" paid_db studentA buy10]
  note t2 = purchase_atomic [of None 1000 "''pkg2''" "''pay1''" paid_db studentA buy10]
  note t3 = purchase_atomic [of None 1000 "''pkg2''" "''pay2''" paid_db studentA ?long]
  have v: "u_role studentA = STUDENT \<and> pu_name buy10 \<noteq> [] \<and> 1 \<le> pu_totalHours buy10 \<and>
       pu_totalHours buy10 < 1000000000000000000000 \<and> 0 \<le> pu_price buy10 \<and> 1 \<le> pu_validDays buy10 \<and>
       \<bar>1000\<bar> \<le> (8640000000000000::int) \<and> 1000 + pu_validDays buy10 * 86400000 \<le> 8640000000000000 \<and>
       findPackage paid_db ''pkg2'' = None"
    by (simp add: paid_db_def pay1_def buy10_def fixture_defs findPackage_def)
  have ok: "\<not> isl (fst (purchaseWith None 1000 ''pkg2'' ''pay2'' paid_db studentA buy10))"
    using t [THEN conjunct2, THEN conjunct2, THEN conjunct1] v
    by (simp add: paid_db_def pay1_def)
  have a: "fst (purchaseWith None 1000 ''pkg2'' ''pay2'' paid_db studentA buy10) =
     Inr (?pkg, newPayment 1000 ''pay2'' ?pkg studentA buy10)"
    using ok by (auto simp: purchaseWith_unfold addDays_def timeClip_def buy10_def split: if_splits)
  have b: "expiresAt ?pkg = 2592001000 \<and>
     amount (newPayment 1000 ''pay2'' ?pkg studentA buy10) = 1200"
    by (simp add: newPackage_def newPayment_def buy10_def)
  have same: "1000 + pu_validDays buy10 * 86400000 = 2592001000"
    by (simp add: buy10_def)
  have c: "insertPackage ?pkg paid_db =
     Some (paid_db\<lparr>coursePackages := [pkg20 0 ACTIVE, ?pkg]\<rparr>)"
    using t1 [THEN conjunct2, THEN conjunct2, THEN conjunct2, THEN mp, OF v, THEN conjunct1]
    unfolding same by (simp add: paid_db_def package_db_def)
  have e: "purchaseWith (Some 1) 1000 ''pkg2'' ''pay2'' paid_db studentA buy10 = (Inl InternalError, paid_db)"
    using t1 [THEN conjunct2, THEN conjunct2, THEN conjunct2, THEN mp, OF v, THEN conjunct2] by simp
  have g: "purchaseWith None 1000 ''pkg2'' ''pay1'' paid_db studentA buy10 = (Inl InternalError, paid_db)"
    using t2 [THEN conjunct2, THEN conjunct2, THEN conjunct2, THEN mp, OF v, THEN conjunct2]
    by (simp add: paid_db_def pay1_def)
  have i: "isl (fst (purchaseWith None 1000 ''pkg2'' ''pay2'' paid_db studentA ?long))"
    using t3 [THEN conjunct2, THEN conjunct2, THEN conjunct1] by simp
  have j: "snd (purchaseWith None 1000 ''pkg2'' ''pay2'' paid_db studentA ?long) = paid_db"
    using t3 [THEN conjunct1] i by simp
  show ?thesis
    by (intro conjI) (fact a b [THEN conjunct1] b [THEN conjunct2] c e g i j)+
qed

section \<open>Batch attendance\<close>

text \<open>
  C7 (as amended).  For an existing course and a caller who may record its attendance, with
  unique user ids and unique enrollment links: the batch is rejected, and no attendance
  record is created, exactly when a student is listed more than once, or a listed student
  does not exist with the student role, or has no enrollment link for the course, or
  already has an attendance record for the course.  Otherwise the answer is the number of
  listed students and exactly one record per listed student is added.
\<close>

theorem batch_all_or_nothing:
  assumes "user_ids_unique d" and "links_unique d"
    and "requireRole [ADMIN, TEACHER] u" and "findCourse d (bb_courseId b) = Some c"
    and "teacherId c = u_id u \<or> u_role u = ADMIN"
  shows "(isl (fst (createAttendanceBatch now d u b)) =
            (\<not> distinct (map bi_studentId (bb_records b)) \<or>
             (\<exists>r\<in>set (bb_records b). \<not> batch_member_ok d (bb_courseId b) (bi_studentId r)))) \<and>
         (isl (fst (createAttendanceBatch now d u b)) \<longrightarrow>
            snd (createAttendanceBatch now d u b) = d) \<and>
         (\<not> isl (fst (createAttendanceBatch now d u b)) \<longrightarrow>
            fst (createAttendanceBatch now d u b) = Inr (length (bb_records b)) \<and>
            snd (createAttendanceBatch now d u b) =
              d\<lparr>attendanceRecords :=
                  attendanceRecords d @ batchData now (bb_courseId b) (bb_records b)\<rparr> \<and>
            (\<forall>r\<in>set (bb_records b).
               length (filter (\<lambda>x. ar_studentId x = bi_studentId r)
                 (batchData now (bb_courseId b) (bb_records b))) = 1))"
proof -
  note unf = createAttendanceBatch_unfold [OF assms, of now]
  have a: "isl (fst (createAttendanceBatch now d u b)) =
            (\<not> distinct (map bi_studentId (bb_records b)) \<or>
             (\<exists>r\<in>set (bb_records b). \<not> batch_member_ok d (bb_courseId b) (bi_studentId r)))"
    unfolding unf by (auto simp: batch_member_ok_def)
  have b: "isl (fst (createAttendanceBatch now d u b)) \<longrightarrow>
            snd (createAttendanceBatch now d u b) = d"
    unfolding unf by auto
  have c: "\<not> isl (fst (createAttendanceBatch now d u b)) \<longrightarrow>
            fst (createAttendanceBatch now d u b) = Inr (length (bb_records b)) \<and>
            snd (createAttendanceBatch now d u b) =
              d\<lparr>attendanceRecords :=
                  attendanceRecords d @ batchData now (bb_courseId b) (bb_records b)\<rparr> \<and>
            (\<forall>r\<in>set (bb_records b).
               length (filter (\<lambda>x. ar_studentId x = bi_studentId r)
                 (batchData now (bb_courseId b) (bb_records b))) = 1)"
  proof
    assume ok: "\<not> isl (fst (createAttendanceBatch now d u b))"
    then have dist: "distinct (map bi_studentId (bb_records b))"
      using a by blast
    have res: "fst (createAttendanceBatch now d u b) = Inr (length (bb_records b)) \<and>
            snd (createAttendanceBatch now d u b) =
              d\<lparr>attendanceRecords :=
                  attendanceRecords d @ batchData now (bb_courseId b) (bb_records b)\<rparr>"
      using ok unfolding unf by (auto split: if_splits)
    have one: "length (filter (\<lambda>x. ar_studentId x = bi_studentId r)
                 (batchData now (bb_courseId b) (bb_records b))) = 1"
      if "r \<in> set (bb_records b)" for r
    proof -
      let ?x = "\<lparr>ar_studentId = bi_studentId r, ar_courseId = bb_courseId b, ar_status = bi_status r,
                 recordedAt = now\<rparr>"
      have "?x \<in> set (batchData now (bb_courseId b) (bb_records b))"
        using that by (auto simp: batchData_def)
      moreover have "distinct (map ar_studentId (batchData now (bb_courseId b) (bb_records b)))"
        using dist by (simp add: batchData_def o_def)
      ultimately have "length (filter (\<lambda>y. ar_studentId y = ar_studentId ?x)
                 (batchData now (bb_courseId b) (bb_records b))) = 1"
        by (rule filter_key_one [rotated])
      then show ?thesis by simp
    qed
    show "fst (createAttendanceBatch now d u b) = Inr (length (bb_records b)) \<and>
            snd (createAttendanceBatch now d u b) =
              d\<lparr>attendanceRecords :=
                  attendanceRecords d @ batchData now (bb_courseId b) (bb_records b)\<rparr> \<and>
            (\<forall>r\<in>set (bb_records b).
               length (filter (\<lambda>x. ar_studentId x = bi_studentId r)
                 (batchData now (bb_courseId b) (bb_records b))) = 1)"
      using res one by blast
  qed
  show ?thesis
    by (intro conjI) (fact a b c)+
qed

text \<open>
  The clause on repeated students is needed: the handler compares the number of students
  found with the number of listed ids, so a batch that lists an enrolled student without
  a record twice is rejected as a whole, with the error for students that do not exist.
\<close>

theorem batch_duplicate_counterexample:
  "map bi_studentId (bb_records (batch_of [''studentA'', ''studentA''])) = [''studentA'', ''studentA''] \<and>
   batch_member_ok (course_db (course1 20 1) [linkA]) ''course1'' ''studentA'' \<and>
   createAttendanceBatch 0 (course_db (course1 20 1) [linkA]) admin1
       (batch_of [''studentA'', ''studentA'']) =
     (Inl SomeStudentsInvalid, course_db (course1 20 1) [linkA])"
  by (simp add: batch_member_ok_def is_student_def findEnrollment_def requireRole_def findCourse_def
      attendance_handler_defs attendance_fixture_defs fixture_defs Let_def)

theorem batch_all_or_nothing_witness:
  "isl (fst (createAttendanceBatch 0 five_db teacher1 (batch_of [''s1'', ''s2'', ''s3'', ''s4'', ''s5'']))) \<and>
   snd (createAttendanceBatch 0 five_db teacher1 (batch_of [''s1'', ''s2'', ''s3'', ''s4'', ''s5''])) = five_db \<and>
   fst (createAttendanceBatch 0 five_db teacher1 (batch_of [''s1'', ''s2'', ''s3'', ''s4''])) = Inr 4 \<and>
   attendanceRecords (snd (createAttendanceBatch 0 five_db teacher1 (batch_of [''s1'', ''s2'', ''s3'', ''s4'']))) =
     batchData 0 ''course1'' (bb_records (batch_of [''s1'', ''s2'', ''s3'', ''s4'']))"
proof -
  have u: "user_ids_unique five_db" and l: "links_unique five_db"
    by (simp_all add: user_ids_unique_def links_unique_def five_db_def fixture_defs)
  have r: "requireRole [ADMIN, TEACHER] teacher1"
    by (simp add: requireRole_def teacher1_def)
  have c5: "findCourse five_db (bb_courseId (batch_of [''s1'', ''s2'', ''s3'', ''s4'', ''s5''])) = Some (course1 20 4)"
    and c4: "findCourse five_db (bb_courseId (batch_of [''s1'', ''s2'', ''s3'', ''s4''])) = Some (course1 20 4)"
    by (simp_all add: findCourse_def five_db_def batch_of_def course1_def)
  have t: "teacherId (course1 20 4) = u_id teacher1 \<or> u_role teacher1 = ADMIN"
    by (simp add: course1_def teacher1_def)
  note t5 = batch_all_or_nothing [OF u l r c5 t, of 0]
  note t4 = batch_all_or_nothing [OF u l r c4 t, of 0]
  have bad: "\<not> batch_member_ok five_db ''course1'' ''s5''"
    by (simp add: batch_member_ok_def findEnrollment_def five_db_def)
  have a: "isl (fst (createAttendanceBatch 0 five_db teacher1 (batch_of [''s1'', ''s2'', ''s3'', ''s4'', ''s5''])))"
    using t5 [THEN conjunct1] bad by (simp add: batch_of_def)
  have b: "snd (createAttendanceBatch 0 five_db teacher1 (batch_of [''s1'', ''s2'', ''s3'', ''s4'', ''s5''])) = five_db"
    using t5 [THEN conjunct2, THEN conjunct1] a by simp
  have good: "\<not> isl (fst (createAttendanceBatch 0 five_db teacher1 (batch_of [''s1'', ''s2'', ''s3'', ''s4''])))"
    using t4 [THEN conjunct1]
    by (simp add: batch_of_def batch_member_ok_def is_student_def findEnrollment_def findAttendance_def
        five_db_def fixture_defs)
  note k = t4 [THEN conjunct2, THEN conjunct2, THEN mp, OF good]
  have c: "fst (createAttendanceBatch 0 five_db teacher1 (batch_of [''s1'', ''s2'', ''s3'', ''s4''])) = Inr 4"
    using k [THEN conjunct1] by (simp add: batch_of_def)
  have e: "attendanceRecords (snd (createAttendanceBatch 0 five_db teacher1 (batch_of [''s1'', ''s2'', ''s3'', ''s4'']))) =
     batchData 0 ''course1'' (bb_records (batch_of [''s1'', ''s2'', ''s3'', ''s4'']))"
    using k [THEN conjunct2, THEN conjunct1] by (simp add: batch_of_def five_db_def)
  show ?thesis
    by (intro conjI) (fact a b c e)+
qed

section \<open>Attendance records and enrollment links\<close>















section \<open>What a student can list\<close>

lemma set_items_paginate: "set (items (paginate page limit xs)) \<subseteq> set xs"
proof -
  have "set (items (paginate page limit xs)) \<subseteq> set (drop (nat ((pageOf page - 1) * limitOf limit)) xs)"
    by (simp add: paginate_def set_take_subset)
  also have "\<dots> \<subseteq> set xs"
    by (rule set_drop_subset)
  finally show ?thesis .
qed

text \<open>
  C10.  For a caller with the student role, every package, payment and attendance record
  on any page of the three list endpoints has the caller as its student, whatever the
  query; and the list is the same whatever \<^verbatim>\<open>studentId\<close> the query carries, so a filter
  for another student is overridden and cannot widen the result.
\<close>

theorem student_lists_scoped:
  assumes "u_role u = STUDENT"
  shows "(\<forall>l. listPackages d u pq = Inr l \<longrightarrow> (\<forall>p\<in>set (items l). p_studentId p = u_id u)) \<and>
         (\<forall>l. listPayments d u yq = Inr l \<longrightarrow> (\<forall>p\<in>set (items l). pay_studentId p = u_id u)) \<and>
         (\<forall>l. listAttendance d u aq = Inr l \<longrightarrow> (\<forall>r\<in>set (items l). ar_studentId r = u_id u)) \<and>
         (\<forall>x. listPackages d u (pq\<lparr>pq_studentId := x\<rparr>) = listPackages d u pq) \<and>
         (\<forall>x. listPayments d u (yq\<lparr>yq_studentId := x\<rparr>) = listPayments d u yq) \<and>
         (\<forall>x. listAttendance d u (aq\<lparr>aq_studentId := x\<rparr>) = listAttendance d u aq)"
proof -
  have a: "\<forall>l. listPackages d u pq = Inr l \<longrightarrow> (\<forall>p\<in>set (items l). p_studentId p = u_id u)"
  proof (intro allI impI ballI)
    fix l p
    assume l: "listPackages d u pq = Inr l" and p: "p \<in> set (items l)"
    let ?m = "sort_key (\<lambda>p. - purchasedAt p)
                (filter (matchesPackage (packageWhere u pq)) (coursePackages d))"
    from l have "l = paginate (pq_page pq) (pq_limit pq) ?m"
      by (auto simp: listPackages_def split: if_splits)
    with p have "p \<in> set ?m"
      using set_items_paginate [of "pq_page pq" "pq_limit pq" ?m] by blast
    then have "matchesPackage (packageWhere u pq) p" by simp
    then show "p_studentId p = u_id u"
      using assms by (simp add: matchesPackage_def packageWhere_def admits_def Let_def)
  qed
  have b: "\<forall>l. listPayments d u yq = Inr l \<longrightarrow> (\<forall>p\<in>set (items l). pay_studentId p = u_id u)"
  proof (intro allI impI ballI)
    fix l p
    assume l: "listPayments d u yq = Inr l" and p: "p \<in> set (items l)"
    let ?m = "sort_key (\<lambda>p. - paidAt p)
                (filter (matchesPayment (paymentWhere u yq)) (payments d))"
    from l have "l = paginate (yq_page yq) (yq_limit yq) ?m"
      by (auto simp: listPayments_def split: if_splits)
    with p have "p \<in> set ?m"
      using set_items_paginate [of "yq_page yq" "yq_limit yq" ?m] by blast
    then have "matchesPayment (paymentWhere u yq) p" by simp
    then show "pay_studentId p = u_id u"
      using assms by (simp add: matchesPayment_def paymentWhere_def admits_def Let_def)
  qed
  have c: "\<forall>l. listAttendance d u aq = Inr l \<longrightarrow> (\<forall>r\<in>set (items l). ar_studentId r = u_id u)"
  proof (intro allI impI ballI)
    fix l r
    assume l: "listAttendance d u aq = Inr l" and r: "r \<in> set (items l)"
    let ?m = "sort_key (\<lambda>r. - recordedAt r)
                (filter (matchesAttendance (attendanceWhere u aq)) (attendanceRecords d))"
    from l have "l = paginate (aq_page aq) (aq_limit aq) ?m"
      by (auto simp: listAttendance_def split: if_splits)
    with r have "r \<in> set ?m"
      using set_items_paginate [of "aq_page aq" "aq_limit aq" ?m] by blast
    then have "matchesAttendance (attendanceWhere u aq) r" by simp
    then show "ar_studentId r = u_id u"
      using assms by (simp add: matchesAttendance_def attendanceWhere_def admits_def Let_def)
  qed
  have e: "\<forall>x. listPackages d u (pq\<lparr>pq_studentId := x\<rparr>) = listPackages d u pq"
    using assms by (simp add: listPackages_def packageWhere_def Let_def)
  have f: "\<forall>x. listPayments d u (yq\<lparr>yq_studentId := x\<rparr>) = listPayments d u yq"
    using assms by (simp add: listPayments_def paymentWhere_def Let_def)
  have g: "\<forall>x. listAttendance d u (aq\<lparr>aq_studentId := x\<rparr>) = listAttendance d u aq"
    using assms by (simp add: listAttendance_def attendanceWhere_def Let_def)
  show ?thesis
    by (intro conjI) (fact a b c e f g)+
qed

theorem student_lists_scoped_witness:
  "listPackages shared_db studentA (ask_packages (Some ''studentB'')) =
     Inr \<lparr>items = [pkg20 0 ACTIVE], pg_page = 1, pg_limit = 10, pg_total = 1, pg_pages = 1\<rparr> \<and>
   listPayments shared_db studentA (ask_payments (Some ''studentB'')) =
     Inr \<lparr>items = [pay1], pg_page = 1, pg_limit = 10, pg_total = 1, pg_pages = 1\<rparr> \<and>
   listAttendance shared_db studentA (ask_attendance (Some ''studentB'')) =
     Inr \<lparr>items = [recA], pg_page = 1, pg_limit = 10, pg_total = 1, pg_pages = 1\<rparr> \<and>
   listPackages shared_db admin1 (ask_packages (Some ''studentB'')) =
     Inr \<lparr>items = [pkgB], pg_page = 1, pg_limit = 10, pg_total = 1, pg_pages = 1\<rparr> \<and>
   p_studentId (pkg20 0 ACTIVE) = u_id studentA \<and> pay_studentId pay1 = u_id studentA \<and>
   ar_studentId recA = u_id studentA"
proof -
  have s: "u_role studentA = STUDENT" by (simp add: studentA_def)
  note t = student_lists_scoped [OF s, of shared_db]
  have p: "listPackages shared_db studentA (ask_packages (Some ''studentB'')) =
     Inr \<lparr>items = [pkg20 0 ACTIVE], pg_page = 1, pg_limit = 10, pg_total = 1, pg_pages = 1\<rparr>"
    by (simp add: list_defs list_fixture_defs studentA_def Let_def)
  have y: "listPayments shared_db studentA (ask_payments (Some ''studentB'')) =
     Inr \<lparr>items = [pay1], pg_page = 1, pg_limit = 10, pg_total = 1, pg_pages = 1\<rparr>"
    by (simp add: list_defs list_fixture_defs studentA_def Let_def)
  have r: "listAttendance shared_db studentA (ask_attendance (Some ''studentB'')) =
     Inr \<lparr>items = [recA], pg_page = 1, pg_limit = 10, pg_total = 1, pg_pages = 1\<rparr>"
    by (simp add: list_defs list_fixture_defs studentA_def Let_def)
  have ad: "listPackages shared_db admin1 (ask_packages (Some ''studentB'')) =
     Inr \<lparr>items = [pkgB], pg_page = 1, pg_limit = 10, pg_total = 1, pg_pages = 1\<rparr>"
    by (simp add: list_defs list_fixture_defs admin1_def Let_def)
  have p': "p_studentId (pkg20 0 ACTIVE) = u_id studentA"
    using t [THEN conjunct1, THEN spec, THEN mp, OF p] by simp
  have y': "pay_studentId pay1 = u_id studentA"
    using t [THEN conjunct2, THEN conjunct1, THEN spec, THEN mp, OF y] by simp
  have r': "ar_studentId recA = u_id studentA"
    using t [THEN conjunct2, THEN conjunct2, THEN conjunct1, THEN spec, THEN mp, OF r] by simp
  show ?thesis
    by (intro conjI) (fact p y r ad p' y' r')+
qed

section \<open>Rates\<close>



end

